theory Spec2Isabelle
  imports Complex_Main "HOL-Library.Word"
begin

section \<open>JavaScript strings\<close>

text \<open>
  A JavaScript string is a sequence of UTF-16 code units; \<open>length\<close>, \<open>substring\<close>, \<open>split\<close>
  and \<open>trim\<close> all count code units. Literals of the source that are plain ASCII are written
  with \<open>js\<close>; every other character is given by its code unit.
\<close>

type_synonym jschar = "16 word"
type_synonym jsstring = "jschar list"

definition js :: "string \<Rightarrow> jsstring" where
  "js s = map of_char s"

definition isWhiteSpace :: "jschar \<Rightarrow> bool" where
  \<comment> \<open>the WhiteSpace and LineTerminator code points that \<open>String.prototype.trim\<close> strips\<close>
  "isWhiteSpace c \<longleftrightarrow>
     c \<in> set [0x0009, 0x000A, 0x000B, 0x000C, 0x000D, 0x0020, 0x00A0, 0x1680, 0x2000, 0x2001,
       0x2002, 0x2003, 0x2004, 0x2005, 0x2006, 0x2007, 0x2008, 0x2009, 0x200A, 0x2028, 0x2029,
       0x202F, 0x205F, 0x3000, 0xFEFF]"

definition trim :: "jsstring \<Rightarrow> jsstring" where
  "trim s = rev (dropWhile isWhiteSpace (rev (dropWhile isWhiteSpace s)))"

definition substring :: "nat \<Rightarrow> nat \<Rightarrow> jsstring \<Rightarrow> jsstring" where
  \<comment> \<open>\<open>s.substring(a, b)\<close>: both indices are clamped to the length and swapped when \<open>a > b\<close>\<close>
  "substring a b s =
     (let a' = min a (length s); b' = min b (length s); lo = min a' b'; hi = max a' b'
      in take (hi - lo) (drop lo s))"

fun split_on :: "jschar \<Rightarrow> jsstring \<Rightarrow> jsstring list" where
  \<comment> \<open>\<open>s.split(sep)\<close> for a one-unit separator; the empty string splits into \<open>[""]\<close>\<close>
  "split_on sep [] = [[]]"
| "split_on sep (c # cs) =
     (if c = sep then [] # split_on sep cs
      else (case split_on sep cs of [] \<Rightarrow> [[c]] | t # ts \<Rightarrow> (c # t) # ts))"

definition replace_all :: "jschar \<Rightarrow> jschar \<Rightarrow> jsstring \<Rightarrow> jsstring" where
  \<comment> \<open>\<open>s.replace(/a/g, b)\<close> for a one-unit pattern and replacement\<close>
  "replace_all a b s = map (\<lambda>c. if c = a then b else c) s"

fun join :: "jsstring \<Rightarrow> jsstring list \<Rightarrow> jsstring" where
  "join sep [] = []"
| "join sep [x] = x"
| "join sep (x # y # ys) = x @ sep @ join sep (y # ys)"

fun nat_toString :: "nat \<Rightarrow> jsstring" where
  \<comment> \<open>the decimal digits of a non-negative integer, as a template literal renders it\<close>
  "nat_toString n =
     (if n < 10 then [of_nat (48 + n)]
      else nat_toString (n div 10) @ [of_nat (48 + n mod 10)])"

definition or_else :: "jsstring option \<Rightarrow> jsstring \<Rightarrow> jsstring" where
  \<comment> \<open>\<open>x || d\<close> on an optional string: \<open>undefined\<close> and the empty string are both falsy\<close>
  "or_else x d = (case x of None \<Rightarrow> d | Some s \<Rightarrow> if s = [] then d else s)"

definition fullwidth_comma :: jschar where
  "fullwidth_comma = 0xFF0C"

definition comma :: jschar where
  "comma = 0x002C"

definition newline :: jsstring where
  "newline = [0x000A]"


section \<open>Values, errors and the outside world\<close>

text \<open>
  A rejected promise or a thrown exception is a value of type \<open>error\<close>; every asynchronous
  function of the source returns \<open>Inl\<close> of the error it throws or \<open>Inr\<close> of its result.
\<close>

datatype error =
    Error jsstring \<comment> \<open>\<open>new Error(message)\<close>\<close>
  | TypeError jsstring \<comment> \<open>reading a property of \<open>null\<close>\<close>
  | SyntaxError jsstring \<comment> \<open>what \<open>JSON.parse\<close> throws\<close>
  | Rejected jsstring \<comment> \<open>a failure of the network or of the provider's client library\<close>

text \<open>What \<open>JSON.parse\<close> returns. Numbers stand for the rational they denote.\<close>

datatype json =
    JNull
  | JBool bool
  | JNum rat
  | JStr jsstring
  | JArr "json list"
  | JObj "(jsstring \<times> json) list"

subsection \<open>The HTTP chat-completion contract\<close>

record fetch_init =
  req_method :: jsstring
  req_headers :: "(jsstring \<times> jsstring) list"
  req_body :: json \<comment> \<open>the object handed to \<open>JSON.stringify\<close>\<close>

text \<open>
  The decoded body of a chat completion, read by the source as
  \<open>data.choices?.[0]?.message?.content\<close>: every level below \<open>data\<close> may be missing, and
  \<open>content\<close>, where it is present, is a string. The body may also be the JSON value
  \<open>null\<close>, on which the first property access throws.
\<close>

record chat_message =
  msg_content :: "jsstring option"

record chat_choice =
  choice_message :: "chat_message option"

record chat_completion =
  choices :: "chat_choice list option"

text \<open>
  A response as the source reads it: \<open>ok\<close> (a status from 200 to 299), the status code, and
  the outcome of reading the body as text and as JSON.
\<close>

record http_response =
  ok :: bool
  status :: nat
  body_text :: "error + jsstring" \<comment> \<open>what \<open>await response.text()\<close> gives\<close>
  body_json :: "error + chat_completion option"
    \<comment> \<open>what \<open>await response.json()\<close> gives; \<open>None\<close> is \<open>null\<close>\<close>

subsection \<open>The primary provider's native contract\<close>

datatype schema =
    NUMBER jsstring
  | STRING
  | ARRAY schema jsstring
  | OBJECT "(jsstring \<times> schema) list" "jsstring list"

datatype contents =
    Prompt jsstring \<comment> \<open>\<open>contents: prompt\<close>\<close>
  | TextParts "jsstring list" \<comment> \<open>\<open>contents: {parts: [{text: ...}]}\<close>\<close>

text \<open>A request; the fields of its \<open>config\<close> bag are flattened into it, each optional.\<close>

record gemini_request =
  model :: jsstring
  req_contents :: contents
  systemInstruction :: "jsstring option"
  thinkingBudget :: "nat option"
  responseMimeType :: "jsstring option"
  responseSchema :: "schema option"
  aspectRatio :: "jsstring option"

record inline_data =
  inline_bytes :: "jsstring option" \<comment> \<open>\<open>inlineData.data\<close>, base64\<close>

record part =
  part_inlineData :: "inline_data option"

record candidate_body =
  content_parts :: "part list option"

record candidate =
  candidate_content :: "candidate_body option"

record gemini_response =
  response_text :: "jsstring option" \<comment> \<open>\<open>response.text\<close>\<close>
  candidates :: "candidate list option"

subsection \<open>Calls, the world and the environment\<close>

datatype call =
    Fetch jsstring fetch_init \<comment> \<open>\<open>fetch(url, init)\<close>\<close>
  | GenerateContent jsstring gemini_request
      \<comment> \<open>\<open>ai.models.generateContent(request)\<close> on a client built with the given key\<close>

datatype log_arg = LogText jsstring | LogError error

text \<open>
  The world records what a run has done so far: the provider and network calls in order,
  the lines written with \<open>console.error\<close>, and the \<open>alert\<close> boxes shown.
\<close>

record world =
  calls :: "call list"
  console :: "(jsstring \<times> log_arg) list"
  alerts :: "jsstring list"

text \<open>
  The environment answers every call. An answer may depend on the whole history, so a
  provider that changes its mind between two identical requests is covered; \<open>JSON.parse\<close>,
  the build-time key, \<open>crypto.randomUUID\<close> and \<open>Date.now\<close> are given by it as well.
\<close>

record env =
  API_KEY :: "jsstring option" \<comment> \<open>\<open>process.env.API_KEY\<close>\<close>
  fetch :: "world \<Rightarrow> jsstring \<Rightarrow> fetch_init \<Rightarrow> error + http_response"
  generateContent :: "world \<Rightarrow> jsstring \<Rightarrow> gemini_request \<Rightarrow> error + gemini_response"
  JSON_parse :: "jsstring \<Rightarrow> error + json"
  randomUUID :: "world \<Rightarrow> jsstring"
  Date_now :: "world \<Rightarrow> nat"

type_synonym 'a io = "world \<Rightarrow> (error + 'a) \<times> world"

definition return_io :: "'a \<Rightarrow> 'a io" where
  "return_io x = (\<lambda>w. (Inr x, w))"

definition throw_io :: "error \<Rightarrow> 'a io" where
  "throw_io e = (\<lambda>w. (Inl e, w))"

definition bind_io :: "'a io \<Rightarrow> ('a \<Rightarrow> 'b io) \<Rightarrow> 'b io" where
  \<comment> \<open>sequencing: an error of the first step skips the rest\<close>
  "bind_io m f = (\<lambda>w. case m w of (Inl e, w') \<Rightarrow> (Inl e, w') | (Inr x, w') \<Rightarrow> f x w')"

definition try_catch :: "'a io \<Rightarrow> (error \<Rightarrow> 'a io) \<Rightarrow> 'a io" where
  \<comment> \<open>\<open>try { m } catch (e) { h e }\<close>\<close>
  "try_catch m h = (\<lambda>w. case m w of (Inl e, w') \<Rightarrow> h e w' | (Inr x, w') \<Rightarrow> (Inr x, w'))"

definition settle :: "error + 'a \<Rightarrow> 'a io" where
  \<comment> \<open>awaiting a promise whose outcome is already fixed\<close>
  "settle r = (\<lambda>w. (r, w))"

definition console_error :: "jsstring \<Rightarrow> log_arg \<Rightarrow> unit io" where
  "console_error msg arg = (\<lambda>w. (Inr (), w\<lparr>console := console w @ [(msg, arg)]\<rparr>))"

definition alert :: "jsstring \<Rightarrow> unit io" where
  "alert msg = (\<lambda>w. (Inr (), w\<lparr>alerts := alerts w @ [msg]\<rparr>))"

definition await_fetch :: "env \<Rightarrow> jsstring \<Rightarrow> fetch_init \<Rightarrow> http_response io" where
  "await_fetch E url init = (\<lambda>w. (fetch E w url init, w\<lparr>calls := calls w @ [Fetch url init]\<rparr>))"

definition await_generateContent :: "env \<Rightarrow> jsstring \<Rightarrow> gemini_request \<Rightarrow> gemini_response io" where
  "await_generateContent E key req =
     (\<lambda>w. (generateContent E w key req, w\<lparr>calls := calls w @ [GenerateContent key req]\<rparr>))"

definition plain_request :: "jsstring \<Rightarrow> contents \<Rightarrow> gemini_request" where
  \<comment> \<open>a request with no \<open>config\<close> bag\<close>
  "plain_request m c =
     \<lparr>model = m, req_contents = c, systemInstruction = None, thinkingBudget = None,
      responseMimeType = None, responseSchema = None, aspectRatio = None\<rparr>"

section \<open>The data model (types.ts)\<close>

record Thought =
  thought_id :: jsstring
  thought_content :: jsstring
  thought_tags :: "jsstring list"
  thought_createdAt :: nat

datatype NicheType = BEAUTY | FOOD | FASHION | TRAVEL | READING | GROWTH | RELATIONSHIPS | OTHER

fun NicheType_value :: "NicheType \<Rightarrow> jsstring" where
  "NicheType_value BEAUTY = [0x7F8E, 0x5986, 0x535A, 0x4E3B]"
| "NicheType_value FOOD = [0x7F8E, 0x98DF, 0x535A, 0x4E3B]"
| "NicheType_value FASHION = [0x65F6, 0x5C1A, 0x535A, 0x4E3B]"
| "NicheType_value TRAVEL = [0x65C5, 0x884C, 0x535A, 0x4E3B]"
| "NicheType_value READING = [0x8BFB, 0x4E66, 0x535A, 0x4E3B]"
| "NicheType_value GROWTH = [0x4E2A, 0x4EBA, 0x6210, 0x957F, 0x535A, 0x4E3B]"
| "NicheType_value RELATIONSHIPS = [0x4E24, 0x6027, 0x604B, 0x7231, 0x535A, 0x4E3B]"
| "NicheType_value OTHER = [0x5176, 0x4ED6]"

datatype PlatformType = XIAOHONGSHU | WECHAT_MOMENTS | DOUYIN | TIKTOK | INSTAGRAM | X

fun PlatformType_value :: "PlatformType \<Rightarrow> jsstring" where
  "PlatformType_value XIAOHONGSHU = [0x5C0F, 0x7EA2, 0x4E66]"
| "PlatformType_value WECHAT_MOMENTS = [0x670B, 0x53CB, 0x5708]"
| "PlatformType_value DOUYIN = [0x6296, 0x97F3]"
| "PlatformType_value TIKTOK = js ''TikTok''"
| "PlatformType_value INSTAGRAM = js ''Instagram''"
| "PlatformType_value X = js ''X (Twitter)''"

datatype AiProvider = gemini | deepseek | qwen

fun AiProvider_value :: "AiProvider \<Rightarrow> jsstring" where
  "AiProvider_value gemini = js ''gemini''"
| "AiProvider_value deepseek = js ''deepseek''"
| "AiProvider_value qwen = js ''qwen''"

datatype StyleMode = manual | auto

record GlobalSettings =
  niche :: NicheType
  styleDescription :: jsstring
  customApiKey :: "jsstring option"
  aiProvider :: "AiProvider option"

record GenerationConfig = GlobalSettings +
  platform :: PlatformType
  refUrl :: jsstring
  selectedThoughtIds :: "jsstring list"
  styleMode :: StyleMode
  withImage :: bool

text \<open>
  An \<open>AuditScore\<close> is held as the JSON value the audit returned: the source casts the
  parsed reply to the interface without looking at it.
\<close>

record GeneratedCopy =
  copy_id :: jsstring
  copy_config :: GenerationConfig
  copy_content :: jsstring
  copy_audit :: json
  copy_imageUrl :: "jsstring option"
  copy_createdAt :: nat


section \<open>The service module\<close>

subsection \<open>Provider clients\<close>

definition getGeminiClient :: "env \<Rightarrow> jsstring option \<Rightarrow> jsstring" where
  \<comment> \<open>a client is known by the key it was built with, \<open>customKey || process.env.API_KEY || ''\<close>;
      building one does not fail, the key handed over is always a string\<close>
  "getGeminiClient E customKey = or_else customKey (or_else (API_KEY E) [])"

definition first_content :: "chat_completion \<Rightarrow> jsstring option" where
  \<comment> \<open>\<open>data.choices?.[0]?.message?.content\<close>\<close>
  "first_content d =
     (case choices d of
        None \<Rightarrow> None
      | Some cs \<Rightarrow>
          (case cs of
             [] \<Rightarrow> None
           | c # _ \<Rightarrow> (case choice_message c of None \<Rightarrow> None | Some m \<Rightarrow> msg_content m)))"

definition chat_request :: "jsstring \<Rightarrow> jsstring \<Rightarrow> jsstring \<Rightarrow> jsstring \<Rightarrow> fetch_init" where
  "chat_request model' apiKey systemPrompt userPrompt =
     \<lparr>req_method = js ''POST'',
      req_headers =
        [(js ''Content-Type'', js ''application/json''),
         (js ''Authorization'', js ''Bearer '' @ apiKey)],
      req_body =
        JObj [(js ''model'', JStr model'),
              (js ''messages'',
               JArr [JObj [(js ''role'', JStr (js ''system'')), (js ''content'', JStr systemPrompt)],
                     JObj [(js ''role'', JStr (js ''user'')), (js ''content'', JStr userPrompt)]]),
              (js ''stream'', JBool False)]\<rparr>"

definition callOpenAICompatible ::
  "env \<Rightarrow> jsstring \<Rightarrow> jsstring \<Rightarrow> jsstring \<Rightarrow> jsstring \<Rightarrow> jsstring \<Rightarrow> jsstring io" where
  "callOpenAICompatible E baseURL model' apiKey systemPrompt userPrompt =
     try_catch
       (bind_io (await_fetch E baseURL (chat_request model' apiKey systemPrompt userPrompt))
          (\<lambda>response.
             bind_io
               (if \<not> ok response then
                  bind_io (settle (body_text response)) (\<lambda>err.
                  bind_io (console_error (js ''API Call failed:'') (LogText err)) (\<lambda>_.
                  throw_io (Error (js ''API Error: '' @ nat_toString (status response)))))
                else return_io ())
               (\<lambda>_.
                  bind_io (settle (body_json response)) (\<lambda>data.
                  case data of
                    None \<Rightarrow> throw_io (TypeError (js ''data is null''))
                  | Some d \<Rightarrow> return_io (or_else (first_content d) [])))))
       (\<lambda>error.
          bind_io (console_error (js ''External API call failed'') (LogError error)) (\<lambda>_.
          throw_io error))"

record text_options =
  opt_customApiKey :: "jsstring option"
  opt_aiProvider :: "jsstring option"
  opt_thinkingBudget :: "nat option"

definition deepseek_url :: jsstring where
  "deepseek_url = js ''https://api.deepseek.com/chat/completions''"

definition qwen_url :: jsstring where
  "qwen_url = js ''https://dashscope.aliyuncs.com/compatible-mode/v1/chat/completions''"

definition flash_model :: jsstring where
  "flash_model = js ''gemini-3-flash-preview''"

definition getGeminiTextModel :: jsstring where
  "getGeminiTextModel = js ''gemini-3-pro-preview''"

definition getGeminiImageModel :: jsstring where
  "getGeminiImageModel = js ''gemini-2.5-flash-image''"

definition text_request :: "jsstring \<Rightarrow> jsstring \<Rightarrow> text_options option \<Rightarrow> gemini_request" where
  \<comment> \<open>the native request of \<open>generateText\<close>; a thinking budget of 0 is falsy and left out\<close>
  "text_request systemPrompt userPrompt config =
     \<lparr>model = flash_model, req_contents = Prompt userPrompt,
      systemInstruction = Some systemPrompt,
      thinkingBudget =
        (case Option.bind config opt_thinkingBudget of
           None \<Rightarrow> None
         | Some b \<Rightarrow> if b = 0 then None else Some b),
      responseMimeType = None, responseSchema = None, aspectRatio = None\<rparr>"

definition generateText ::
  "env \<Rightarrow> jsstring \<Rightarrow> jsstring \<Rightarrow> text_options option \<Rightarrow> jsstring io" where
  "generateText E systemPrompt userPrompt config =
     (let provider = or_else (Option.bind config opt_aiProvider) (js ''gemini'');
          apiKey = or_else (Option.bind config opt_customApiKey) (or_else (API_KEY E) [])
      in
        if provider = js ''deepseek'' then
          callOpenAICompatible E deepseek_url (js ''deepseek-chat'') apiKey systemPrompt userPrompt
        else if provider = js ''qwen'' then
          callOpenAICompatible E qwen_url (js ''qwen-plus'') apiKey systemPrompt userPrompt
        else
          bind_io
            (await_generateContent E (getGeminiClient E (Some apiKey))
               (text_request systemPrompt userPrompt config))
            (\<lambda>response. return_io (or_else (response_text response) [])))"

subsection \<open>Style analysis\<close>

definition style_prompt_head :: jsstring where
  \<comment> \<open>geminiService, line 103\<close>
  "style_prompt_head =
     [0x5206, 0x6790, 0x4EE5, 0x4E0B, 0x6587, 0x672C, 0x7684, 0x5199, 0x4F5C, 0x98CE, 0x683C,
     0x3001, 0x8BED, 0x6C14, 0x548C, 0x683C, 0x5F0F, 0x3002, 0x63D0, 0x4F9B, 0x4E00, 0x4E2A,
     0x7B80, 0x660E, 0x627C, 0x8981, 0x7684, 0x4E2D, 0x6587, 0x63CF, 0x8FF0, 0xFF08, 0x6700,
     0x591A, 0x4E00, 0x53E5, 0x8BDD, 0xFF09, 0xFF0C, 0x63CF, 0x8FF0, 0x8FD9, 0x4E2A, 0x4EBA,
     0x8BBE, 0x98CE, 0x683C, 0x3002, 0x4F8B, 0x5982, 0xFF1A, 0x201C, 0x7406, 0x6027, 0x53D9,
     0x8FF0, 0x4E2D, 0x878D, 0x5165, 0x5F3A, 0x70C8, 0x60C5, 0x611F, 0x8868, 0x8FBE, 0x201D,
     0x6216, 0x201C, 0x5E7D, 0x9ED8, 0x98CE, 0x8DA3, 0x7684, 0x53E3, 0x8BED, 0x5316, 0x8868,
     0x8FBE, 0x201D, 0x3002, 0x6587, 0x672C, 0x5185, 0x5BB9] @ js '': '' @ [0x0022]"

definition style_default :: jsstring where
  \<comment> \<open>geminiService, line 105\<close>
  "style_default =
     [0x4E13, 0x4E1A, 0x4E14, 0x5BA2, 0x89C2, 0x7684, 0x98CE, 0x683C]"

definition style_fallback :: jsstring where
  \<comment> \<open>geminiService, line 107\<close>
  "style_fallback =
     [0x901A, 0x7528, 0x4E13, 0x4E1A, 0x98CE, 0x683C]"

definition style_request :: "jsstring \<Rightarrow> gemini_request" where
  "style_request exampleText =
     plain_request flash_model
       (Prompt (style_prompt_head @ substring 0 1000 exampleText @ [0x0022]))"

definition analyzeStyleFromText :: "env \<Rightarrow> jsstring \<Rightarrow> jsstring option \<Rightarrow> jsstring io" where
  "analyzeStyleFromText E exampleText apiKey =
     try_catch
       (bind_io (await_generateContent E (getGeminiClient E apiKey) (style_request exampleText))
          (\<lambda>response. return_io (or_else (response_text response) style_default)))
       (\<lambda>e. return_io style_fallback)"

subsection \<open>Tagging\<close>

definition tags_systemPrompt :: jsstring where
  \<comment> \<open>geminiService, line 116\<close>
  "tags_systemPrompt =
     [0x4F60, 0x662F, 0x4E00, 0x4E2A, 0x52A9, 0x624B, 0xFF0C, 0x8D1F, 0x8D23, 0x6839, 0x636E,
     0x7528, 0x6237, 0x8F93, 0x5165, 0x7684, 0x6587, 0x672C, 0x5185, 0x5BB9, 0xFF0C, 0x751F,
     0x6210] @ js ''1-3'' @ [0x4E2A, 0x7B80, 0x77ED, 0x7684, 0x6807, 0x7B7E, 0xFF08] @
     js ''Tag'' @ [0xFF09, 0x3002]"

definition tags_userPrompt_head :: jsstring where
  \<comment> \<open>geminiService, line 117, up to the interpolated content\<close>
  "tags_userPrompt_head =
     [0x8BF7, 0x5206, 0x6790, 0x4EE5, 0x4E0B, 0x5185, 0x5BB9, 0xFF0C, 0x751F, 0x6210, 0x6700,
     0x8D34, 0x5207, 0x7684] @ js ''1-3'' @ [0x4E2A, 0x6807, 0x7B7E, 0xFF08, 0x4F8B, 0x5982,
     0xFF1A, 0x751F, 0x6D3B, 0x3001, 0x611F, 0x609F, 0x3001, 0x5DE5, 0x4F5C, 0x3001, 0x7075,
     0x611F, 0x7B49, 0xFF09, 0x3002, 0x000A] @ js ''  '' @ [0x000A] @ js ''  '' @ [0x5185,
     0x5BB9] @ js '': '' @ [0x0022]"

definition tags_userPrompt_tail :: jsstring where
  \<comment> \<open>geminiService, line 117, after the interpolated content\<close>
  "tags_userPrompt_tail =
     [0x0022, 0x000A] @ js ''  '' @ [0x000A] @ js ''  '' @ [0x8981, 0x6C42] @ js '':'' @
     [0x000A] @ js ''  1. '' @ [0x4EC5, 0x8FD4, 0x56DE, 0x6807, 0x7B7E, 0xFF0C, 0x7528, 0x9017,
     0x53F7, 0x5206, 0x9694, 0x3002, 0x000A] @ js ''  2. '' @ [0x4E0D, 0x8981, 0x5305, 0x542B,
     0x4EFB, 0x4F55, 0x5176, 0x4ED6, 0x89E3, 0x91CA, 0x6587, 0x5B57, 0x3002, 0x000A] @ js ''  ''"

definition tag_sentinel :: jsstring where
  \<comment> \<open>geminiService, line 133\<close>
  "tag_sentinel =
     [0x901A, 0x7528]"

definition tags_userPrompt :: "jsstring \<Rightarrow> jsstring" where
  "tags_userPrompt thoughtContent =
     tags_userPrompt_head @ substring 0 500 thoughtContent @ tags_userPrompt_tail"

definition clean_tags :: "jsstring \<Rightarrow> jsstring list" where
  \<comment> \<open>\<open>result.replace(/\<dots>/g, ',').split(',').map(t => t.trim()).filter(t => t.length > 0)\<close>,
      the pattern being the full-width comma\<close>
  "clean_tags result =
     filter (\<lambda>t. length t > 0)
       (map trim (split_on comma (replace_all fullwidth_comma comma result)))"

definition generateTagsForThought ::
  "env \<Rightarrow> jsstring \<Rightarrow> jsstring option \<Rightarrow> jsstring option \<Rightarrow> jsstring list io" where
  "generateTagsForThought E thoughtContent apiKey provider =
     (let systemPrompt = tags_systemPrompt;
          userPrompt = tags_userPrompt thoughtContent
      in
        try_catch
          (bind_io
             (generateText E systemPrompt userPrompt
                (Some \<lparr>opt_customApiKey = apiKey, opt_aiProvider = provider,
                       opt_thinkingBudget = None\<rparr>))
             (\<lambda>result. let tags = clean_tags result in return_io (take 3 tags)))
          (\<lambda>error.
             bind_io (console_error (js ''Tag generation error'') (LogError error)) (\<lambda>_.
             return_io [tag_sentinel])))"

subsection \<open>Fragment consolidation\<close>

definition organize_empty :: jsstring where
  \<comment> \<open>geminiService, line 139\<close>
  "organize_empty =
     [0x6682, 0x65E0, 0x788E, 0x7247, 0x60F3, 0x6CD5]"

definition organize_prompt_head :: jsstring where
  \<comment> \<open>geminiService, line 143, up to the fragment list\<close>
  "organize_prompt_head =
     [0x000A] @ js ''    '' @ [0x89D2, 0x8272] @ js '': '' @ [0x8D44, 0x6DF1, 0x5185, 0x5BB9,
     0x52A9, 0x7406, 0x3002, 0x000A] @ js ''    '' @ [0x4EFB, 0x52A1] @ js '': '' @ [0x5206,
     0x6790, 0x7528, 0x6237, 0x63D0, 0x4F9B, 0x7684, 0x6240, 0x6709, 0x788E, 0x7247, 0x5316,
     0x60F3, 0x6CD5, 0xFF0C, 0x8BC6, 0x522B, 0x5176, 0x4E2D, 0x6700, 0x76F8, 0x5173, 0x3001,
     0x6700, 0x5177, 0x8FDE, 0x8D2F, 0x6027, 0x7684, 0x4E3B, 0x9898, 0x5185, 0x5BB9, 0xFF0C,
     0x5C06, 0x5B83, 0x4EEC, 0x6574, 0x5408, 0x6210, 0x4E00, 0x6BB5, 0x901A, 0x987A, 0x7684,
     0x521D, 0x6B65, 0x6587, 0x6848, 0x8349, 0x7A3F, 0x3002, 0x000A] @ js ''    '' @ [0x000A] @
     js ''    '' @ [0x788E, 0x7247, 0x60F3, 0x6CD5, 0x5217, 0x8868] @ js '':'' @ [0x000A] @
     js ''    ''"

definition organize_prompt_tail :: jsstring where
  \<comment> \<open>geminiService, line 143, after the fragment list\<close>
  "organize_prompt_tail =
     [0x000A] @ js ''    '' @ [0x000A] @ js ''    '' @ [0x8981, 0x6C42] @ js '':'' @ [0x000A] @
     js ''    1. '' @ [0x8BC6, 0x522B, 0x51FA, 0x5171, 0x540C, 0x4E3B, 0x9898, 0x6216, 0x5173,
     0x8054, 0x6027, 0x5F3A, 0x7684, 0x60F3, 0x6CD5, 0x3002, 0x000A] @ js ''    2. '' @ [0x5254,
     0x9664, 0x660E, 0x663E, 0x65E0, 0x5173, 0x6216, 0x91CD, 0x590D, 0x7684, 0x5185, 0x5BB9,
     0x3002, 0x000A] @ js ''    3. '' @ [0x8BED, 0x8A00, 0x901A, 0x987A, 0xFF0C, 0x903B, 0x8F91,
     0x8FDE, 0x8D2F, 0xFF0C, 0x4F5C, 0x4E3A, 0x4E00, 0x7BC7, 0x6587, 0x6848, 0x7684, 0x57FA,
     0x7840, 0x7D20, 0x6750, 0x3002, 0x000A] @ js ''    4. '' @ [0x4EC5, 0x4EC5, 0x8FD4, 0x56DE,
     0x6574, 0x7406, 0x540E, 0x7684, 0x6587, 0x672C, 0xFF0C, 0x4E0D, 0x8981, 0x5305, 0x542B,
     0x89E3, 0x91CA, 0x3002, 0x000A] @ js ''  ''"

definition organize_request :: "Thought list \<Rightarrow> gemini_request" where
  "organize_request thoughts =
     (let allContent = join newline (map (\<lambda>t. js ''- '' @ thought_content t) thoughts);
          prompt = organize_prompt_head @ allContent @ organize_prompt_tail
      in plain_request flash_model (Prompt prompt))"

definition smartOrganizeThoughts :: "env \<Rightarrow> Thought list \<Rightarrow> jsstring option \<Rightarrow> jsstring io" where
  "smartOrganizeThoughts E thoughts apiKey =
     (let ai = getGeminiClient E apiKey in
        if length thoughts = 0 then return_io organize_empty
        else
          try_catch
            (bind_io (await_generateContent E ai (organize_request thoughts))
               (\<lambda>response. return_io (or_else (response_text response) [])))
            (\<lambda>error.
               bind_io (console_error (js ''Smart organize failed'') (LogError error)) (\<lambda>_.
               throw_io error)))"

subsection \<open>Copy generation\<close>

definition base_draft_header :: jsstring where
  \<comment> \<open>geminiService, line 192\<close>
  "base_draft_header =
     [0x57FA, 0x7840, 0x8349, 0x7A3F, 0x5185, 0x5BB9] @ js '' ('' @ [0x8BF7, 0x57FA, 0x4E8E,
     0x6B64, 0x5185, 0x5BB9, 0x8FDB, 0x884C, 0x4F18, 0x5316, 0x548C, 0x683C, 0x5F0F, 0x5316] @
     js ''):'' @ [0x000A]"

definition tags_label :: jsstring where
  \<comment> \<open>geminiService, line 196\<close>
  "tags_label =
     js '' ('' @ [0x6807, 0x7B7E] @ js '': ''"

definition thoughts_header :: jsstring where
  \<comment> \<open>geminiService, line 198\<close>
  "thoughts_header =
     [0x7528, 0x6237, 0x788E, 0x7247, 0x60F3, 0x6CD5] @ js '':'' @ [0x000A]"

definition lang_chinese :: jsstring where
  \<comment> \<open>geminiService, line 208\<close>
  "lang_chinese =
     [0x7B80, 0x4F53, 0x4E2D, 0x6587] @ js '' (Simplified Chinese)''"

definition formatDesc_XIAOHONGSHU :: jsstring where
  \<comment> \<open>geminiService, line 214\<close>
  "formatDesc_XIAOHONGSHU =
     [0x5C0F, 0x7EA2, 0x4E66, 0x98CE, 0x683C, 0xFF1A, 0x6807, 0x9898, 0x5438, 0x5F15, 0x4EBA,
     0xFF08, 0x542B] @ js ''emoji'' @ [0xFF09, 0xFF0C, 0x6B63, 0x6587, 0x5206, 0x6BB5, 0x6E05,
     0x6670, 0xFF0C, 0x591A, 0x7528] @ js ''emoji'' @ [0xFF0C, 0x6587, 0x672B, 0x52A0, 0x76F8,
     0x5173, 0x8BDD, 0x9898, 0x6807, 0x7B7E, 0x3002]"

definition formatDesc_WECHAT_MOMENTS :: jsstring where
  \<comment> \<open>geminiService, line 217\<close>
  "formatDesc_WECHAT_MOMENTS =
     [0x670B, 0x53CB, 0x5708, 0x98CE, 0x683C, 0xFF1A, 0x751F, 0x6D3B, 0x611F, 0x5F3A, 0xFF0C,
     0x771F, 0x8BDA, 0x81EA, 0x7136, 0xFF0C, 0x6587, 0x5B57, 0x7CBE, 0x70BC, 0xFF0C, 0x50CF,
     0x5728, 0x548C, 0x670B, 0x53CB, 0x5206, 0x4EAB, 0xFF0C, 0x4E0D, 0x8981, 0x8FC7, 0x4E8E,
     0x8425, 0x9500, 0x5316, 0xFF0C, 0x4E0D, 0x8981, 0x6807, 0x9898, 0x515A, 0x3002]"

definition formatDesc_DOUYIN :: jsstring where
  \<comment> \<open>geminiService, line 220\<close>
  "formatDesc_DOUYIN =
     [0x6296, 0x97F3, 0x98CE, 0x683C, 0xFF1A, 0x9002, 0x5408, 0x53E3, 0x64AD, 0x7684, 0x77ED,
     0x53E5, 0xFF0C, 0x8282, 0x594F, 0x611F, 0x5F3A, 0xFF0C, 0x9EC4, 0x91D1, 0x4E09, 0x79D2,
     0x539F, 0x5219, 0xFF0C, 0x5F15, 0x5BFC, 0x4E92, 0x52A8, 0x3002]"

definition formatDesc_TIKTOK :: jsstring where
  \<comment> \<open>geminiService, line 223\<close>
  "formatDesc_TIKTOK =
     js ''TikTok style: Engaging hook, short sentences, trending hashtags, casual tone.''"

definition formatDesc_INSTAGRAM :: jsstring where
  \<comment> \<open>geminiService, line 226\<close>
  "formatDesc_INSTAGRAM =
     js ''Instagram style: Aesthetic caption, spacing for readability, relevant hashtags, engaging question.''"

definition formatDesc_X :: jsstring where
  \<comment> \<open>geminiService, line 229\<close>
  "formatDesc_X =
     js ''X (Twitter) style: Concise, witty, thread-friendly if long, impactful statements.''"

definition copy_systemPrompt :: jsstring where
  \<comment> \<open>geminiService, line 235\<close>
  "copy_systemPrompt =
     [0x89D2, 0x8272] @ js '': '' @ [0x4F60, 0x662F, 0x4E00, 0x4F4D, 0x7CBE, 0x901A, 0x793E,
     0x4EA4, 0x5A92, 0x4F53, 0x7684, 0x7206, 0x6B3E, 0x6587, 0x6848, 0x4E13, 0x5BB6, 0x3002]"

definition copy_prompt_0_task_platform :: jsstring where
  \<comment> \<open>geminiService, line 236, piece 0 of the template\<close>
  "copy_prompt_0_task_platform =
     [0x000A] @ js ''    '' @ [0x4EFB, 0x52A1] @ js '': '' @ [0x6839, 0x636E, 0x63D0, 0x4F9B,
     0x7684, 0x5185, 0x5BB9, 0x7D20, 0x6750, 0xFF0C, 0x521B, 0x4F5C, 0x4E00, 0x7BC7, 0x5BB9,
     0x6613, 0x4EA7, 0x751F, 0x7206, 0x6B3E, 0x6F5C, 0x8D28, 0x7684, 0x793E, 0x4EA4, 0x5A92,
     0x4F53, 0x6587, 0x6848, 0x3002, 0x000A] @ js ''    '' @ [0x000A] @ js ''    '' @ [0x4E0A,
     0x4E0B, 0x6587, 0x4FE1, 0x606F] @ js '':'' @ [0x000A] @ js ''    - '' @ [0x76EE, 0x6807,
     0x5E73, 0x53F0] @ js '': ''"

definition copy_prompt_1_niche :: jsstring where
  \<comment> \<open>geminiService, line 236, piece 1 of the template\<close>
  "copy_prompt_1_niche =
     [0x000A] @ js ''    - '' @ [0x8D26, 0x53F7, 0x5B9A, 0x4F4D] @ js '': ''"

definition copy_prompt_2_source :: jsstring where
  \<comment> \<open>geminiService, line 236, piece 2 of the template\<close>
  "copy_prompt_2_source =
     [0x000A] @ js ''    - '' @ [0x5185, 0x5BB9, 0x6765, 0x6E90] @ js '':'' @ [0x000A] @
     js ''    ''"

definition copy_prompt_3_gap :: jsstring where
  \<comment> \<open>geminiService, line 236, piece 3 of the template\<close>
  "copy_prompt_3_gap =
     [0x000A] @ js ''    ''"

definition copy_prompt_4_style :: jsstring where
  \<comment> \<open>geminiService, line 236, piece 4 of the template\<close>
  "copy_prompt_4_style =
     [0x000A] @ js ''    - '' @ [0x671F, 0x671B, 0x98CE, 0x683C] @ js '': ''"

definition copy_prompt_5_language :: jsstring where
  \<comment> \<open>geminiService, line 236, piece 5 of the template\<close>
  "copy_prompt_5_language =
     [0x000A] @ js ''    '' @ [0x000A] @ js ''    '' @ [0x8981, 0x6C42] @ js '':'' @ [0x000A] @
     js ''    1. '' @ [0x8BED, 0x8A00] @ js '': ''"

definition copy_prompt_6_format :: jsstring where
  \<comment> \<open>geminiService, line 236, piece 6 of the template\<close>
  "copy_prompt_6_format =
     js ''.'' @ [0x000A] @ js ''    2. '' @ [0x683C, 0x5F0F] @ js '': ''"

definition copy_prompt_7_rules_tone :: jsstring where
  \<comment> \<open>geminiService, line 236, piece 7 of the template\<close>
  "copy_prompt_7_rules_tone =
     [0x000A] @ js ''    3. '' @ [0x5B57, 0x6570] @ js '': 800'' @ [0x5B57, 0x4EE5, 0x5185,
     0x3002, 0x000A] @ js ''    4. '' @ [0x7ED3, 0x6784] @ js '': '' @ [0x5FC5, 0x987B, 0x5305,
     0x542B] @ js '' '' @ [0x5438, 0x5F15, 0x4EBA, 0x7684, 0x6807, 0x9898] @
     js '' (Headline) '' @ [0x548C] @ js '' '' @ [0x6B63, 0x6587] @ js '' (Body) ('' @ [0x670B,
     0x53CB, 0x5708, 0x9664, 0x5916, 0xFF0C, 0x670B, 0x53CB, 0x5708, 0x901A, 0x5E38, 0x65E0,
     0x660E, 0x786E, 0x6807, 0x9898, 0xFF0C, 0x4F46, 0x7B2C, 0x4E00, 0x53E5, 0x8981, 0x5438,
     0x5F15, 0x4EBA] @ js '')'' @ [0x3002, 0x000A] @ js ''    5. '' @ [0x8BED, 0x6C14] @
     js '': '' @ [0x5FC5, 0x987B, 0x4E25, 0x683C, 0x8D34, 0x5408, 0x0022]"

definition copy_prompt_8_output :: jsstring where
  \<comment> \<open>geminiService, line 236, piece 8 of the template\<close>
  "copy_prompt_8_output =
     [0x0022, 0x7684, 0x98CE, 0x683C, 0x63CF, 0x8FF0, 0x3002, 0x000A] @ js ''    '' @ [0x000A] @
     js ''    '' @ [0x8F93, 0x51FA] @ js '': '' @ [0x4EC5, 0x8F93, 0x51FA, 0x6587, 0x6848,
     0x5185, 0x5BB9, 0xFF0C, 0x4E0D, 0x8981, 0x5305, 0x542B, 0x4EFB, 0x4F55] @ js ''markdown'' @
     [0x4EE3, 0x7801, 0x5757, 0x6807, 0x8BB0, 0x3002, 0x000A] @ js ''  ''"

definition refUrl_label :: jsstring where
  \<comment> \<open>geminiService, line 244\<close>
  "refUrl_label =
     js ''- '' @ [0x53C2, 0x8003, 0x94FE, 0x63A5] @ js ''/'' @ [0x5185, 0x5BB9] @ js '': ''"

definition annotated :: "Thought \<Rightarrow> jsstring" where
  \<comment> \<open>one fragment with its tags: the template of the \<open>map\<close> callback\<close>
  "annotated t =
     js ''- '' @ thought_content t @ tags_label @ join (js '', '') (thought_tags t) @ js '')''"

definition thoughtContent :: "GenerationConfig \<Rightarrow> Thought list \<Rightarrow> jsstring" where
  \<comment> \<open>the selected fragments, one line each\<close>
  "thoughtContent config thoughts =
     join newline
       (map annotated
          (filter (\<lambda>t. thought_id t \<in> set (selectedThoughtIds config)) thoughts))"

definition contentSource :: "GenerationConfig \<Rightarrow> Thought list \<Rightarrow> jsstring option \<Rightarrow> jsstring" where
  \<comment> \<open>\<open>if (baseContent && baseContent.trim())\<close>: a missing, empty or blank draft is falsy\<close>
  "contentSource config thoughts baseContent =
     (case baseContent of
        None \<Rightarrow> thoughts_header @ thoughtContent config thoughts
      | Some b \<Rightarrow>
          if b \<noteq> [] \<and> trim b \<noteq> [] then base_draft_header @ b
          else thoughts_header @ thoughtContent config thoughts)"

definition isEnglishPlatform :: "GenerationConfig \<Rightarrow> bool" where
  "isEnglishPlatform config \<longleftrightarrow> platform config \<in> set [TIKTOK, INSTAGRAM, X]"

definition targetLanguage :: "GenerationConfig \<Rightarrow> jsstring" where
  "targetLanguage config = (if isEnglishPlatform config then js ''English'' else lang_chinese)"

fun formatDesc_of :: "PlatformType \<Rightarrow> jsstring" where
  \<comment> \<open>the \<open>switch\<close> on the platform; its \<open>default\<close> branch is taken by no value of the enum\<close>
  "formatDesc_of XIAOHONGSHU = formatDesc_XIAOHONGSHU"
| "formatDesc_of WECHAT_MOMENTS = formatDesc_WECHAT_MOMENTS"
| "formatDesc_of DOUYIN = formatDesc_DOUYIN"
| "formatDesc_of TIKTOK = formatDesc_TIKTOK"
| "formatDesc_of INSTAGRAM = formatDesc_INSTAGRAM"
| "formatDesc_of X = formatDesc_X"

definition copy_userPrompt :: "GenerationConfig \<Rightarrow> Thought list \<Rightarrow> jsstring option \<Rightarrow> jsstring" where
  "copy_userPrompt config thoughts baseContent =
     copy_prompt_0_task_platform @ PlatformType_value (platform config)
     @ copy_prompt_1_niche @ NicheType_value (niche config)
     @ copy_prompt_2_source @ contentSource config thoughts baseContent
     @ copy_prompt_3_gap @ (if refUrl config \<noteq> [] then refUrl_label @ refUrl config else [])
     @ copy_prompt_4_style @ styleDescription config
     @ copy_prompt_5_language @ targetLanguage config
     @ copy_prompt_6_format @ formatDesc_of (platform config)
     @ copy_prompt_7_rules_tone @ styleDescription config
     @ copy_prompt_8_output"

definition copy_request :: "jsstring \<Rightarrow> jsstring \<Rightarrow> gemini_request" where
  \<comment> \<open>the native request of copy generation, with its fixed thinking budget\<close>
  "copy_request systemPrompt userPrompt =
     \<lparr>model = getGeminiTextModel, req_contents = Prompt userPrompt,
      systemInstruction = Some systemPrompt, thinkingBudget = Some 1024,
      responseMimeType = None, responseSchema = None, aspectRatio = None\<rparr>"

definition generateViralCopy ::
  "env \<Rightarrow> GenerationConfig \<Rightarrow> Thought list \<Rightarrow> jsstring option \<Rightarrow> jsstring io" where
  "generateViralCopy E config thoughts baseContent =
     (let systemPrompt = copy_systemPrompt;
          userPrompt = copy_userPrompt config thoughts baseContent
      in
        if aiProvider config = Some gemini \<or> aiProvider config = None then
          bind_io
            (await_generateContent E (getGeminiClient E (customApiKey config))
               (copy_request systemPrompt userPrompt))
            (\<lambda>response. return_io (or_else (response_text response) []))
        else
          generateText E systemPrompt userPrompt
            (Some \<lparr>opt_customApiKey = customApiKey config,
                   opt_aiProvider = map_option AiProvider_value (aiProvider config),
                   opt_thinkingBudget = None\<rparr>))"

subsection \<open>Audit\<close>

definition audit_prompt_head :: jsstring where
  \<comment> \<open>geminiService, line 281, piece 0 of the template\<close>
  "audit_prompt_head =
     [0x000A] @ js ''    '' @ [0x4F5C, 0x4E3A, 0x8D44, 0x6DF1, 0x5185, 0x5BB9, 0x8FD0, 0x8425,
     0xFF0C, 0x8BF7, 0x5206, 0x6790, 0x4EE5, 0x4E0B]"

definition audit_prompt_middle :: jsstring where
  \<comment> \<open>geminiService, line 281, piece 1 of the template\<close>
  "audit_prompt_middle =
     [0x6587, 0x6848, 0x3002, 0x000A] @ js ''    '' @ [0x8FD4, 0x56DE, 0x4E00, 0x4E2A] @
     js ''JSON'' @ [0x5BF9, 0x8C61, 0xFF0C, 0x5305, 0x542B, 0x5404, 0x9879, 0x8BC4, 0x5206,
     0xFF08] @ js ''0-100'' @ [0x5206, 0xFF09, 0xFF0C, 0x6587, 0x6848, 0x4F18, 0x70B9, 0xFF0C,
     0x4F18, 0x5316, 0x5EFA, 0x8BAE, 0xFF0C, 0x4EE5, 0x53CA, 0x6F5C, 0x5728, 0x654F, 0x611F,
     0x8BCD, 0x3002, 0x000A] @ js ''    '' @ [0x000A] @ js ''    '' @ [0x6587, 0x6848, 0x5185,
     0x5BB9] @ js '':'' @ [0x000A] @ js ''    ''"

definition audit_prompt_tail :: jsstring where
  \<comment> \<open>geminiService, line 281, piece 2 of the template\<close>
  "audit_prompt_tail =
     [0x000A] @ js ''  ''"

definition desc_headline :: jsstring where
  \<comment> \<open>geminiService, line 298\<close>
  "desc_headline =
     [0x6807, 0x9898, 0x5438, 0x5F15, 0x529B, 0x8BC4, 0x5206] @ js '' 0-100''"

definition desc_quality :: jsstring where
  \<comment> \<open>geminiService, line 299\<close>
  "desc_quality =
     [0x5185, 0x5BB9, 0x8D28, 0x91CF, 0x8BC4, 0x5206] @ js '' 0-100''"

definition desc_emotion :: jsstring where
  \<comment> \<open>geminiService, line 300\<close>
  "desc_emotion =
     [0x60C5, 0x611F, 0x5171, 0x9E23, 0x8BC4, 0x5206] @ js '' 0-100''"

definition desc_trending :: jsstring where
  \<comment> \<open>geminiService, line 301\<close>
  "desc_trending =
     [0x8BDD, 0x9898, 0x70ED, 0x5EA6, 0x8BC4, 0x5206] @ js '' 0-100''"

definition desc_viralPotential :: jsstring where
  \<comment> \<open>geminiService, line 302\<close>
  "desc_viralPotential =
     [0x7206, 0x6B3E, 0x6F5C, 0x529B, 0x8BC4, 0x5206] @ js '' 0-100''"

definition desc_overall :: jsstring where
  \<comment> \<open>geminiService, line 303\<close>
  "desc_overall =
     [0x7EFC, 0x5408, 0x8BC4, 0x5206] @ js '' 0-100''"

definition desc_suggestions :: jsstring where
  \<comment> \<open>geminiService, line 304\<close>
  "desc_suggestions =
     js ''3'' @ [0x6761, 0x5177, 0x4F53, 0x7684, 0x4F18, 0x5316, 0x5EFA, 0x8BAE]"

definition desc_pros :: jsstring where
  \<comment> \<open>geminiService, line 305\<close>
  "desc_pros =
     js ''3'' @ [0x6761, 0x6587, 0x6848, 0x4F18, 0x70B9]"

definition desc_sensitiveWords :: jsstring where
  \<comment> \<open>geminiService, line 306\<close>
  "desc_sensitiveWords =
     [0x6F5C, 0x5728, 0x654F, 0x611F, 0x8BCD] @ js ''/'' @ [0x8FDD, 0x7981, 0x8BCD]"

definition audit_failed :: jsstring where
  \<comment> \<open>geminiService, line 319\<close>
  "audit_failed =
     [0x5206, 0x6790, 0x5931, 0x8D25]"

definition required_fields :: "jsstring list" where
  "required_fields =
     [js ''headline'', js ''quality'', js ''emotion'', js ''trending'', js ''viralPotential'',
      js ''overall'', js ''suggestions'', js ''pros'', js ''sensitiveWords'']"

definition audit_schema :: schema where
  "audit_schema =
     OBJECT
       [(js ''headline'', NUMBER desc_headline),
        (js ''quality'', NUMBER desc_quality),
        (js ''emotion'', NUMBER desc_emotion),
        (js ''trending'', NUMBER desc_trending),
        (js ''viralPotential'', NUMBER desc_viralPotential),
        (js ''overall'', NUMBER desc_overall),
        (js ''suggestions'', ARRAY STRING desc_suggestions),
        (js ''pros'', ARRAY STRING desc_pros),
        (js ''sensitiveWords'', ARRAY STRING desc_sensitiveWords)]
       required_fields"

definition audit_fallback :: json where
  \<comment> \<open>the object returned by the \<open>catch\<close> block\<close>
  "audit_fallback =
     JObj [(js ''headline'', JNum 0), (js ''quality'', JNum 0), (js ''emotion'', JNum 0),
           (js ''trending'', JNum 0), (js ''viralPotential'', JNum 0), (js ''overall'', JNum 0),
           (js ''suggestions'', JArr [JStr audit_failed]), (js ''pros'', JArr []),
           (js ''sensitiveWords'', JArr [])]"

definition audit_request :: "jsstring \<Rightarrow> PlatformType \<Rightarrow> gemini_request" where
  "audit_request content' platform' =
     \<lparr>model = flash_model,
      req_contents =
        Prompt (audit_prompt_head @ PlatformType_value platform' @ audit_prompt_middle @ content'
                @ audit_prompt_tail),
      systemInstruction = None, thinkingBudget = None,
      responseMimeType = Some (js ''application/json''),
      responseSchema = Some audit_schema, aspectRatio = None\<rparr>"

definition auditCopyContent ::
  "env \<Rightarrow> jsstring \<Rightarrow> PlatformType \<Rightarrow> jsstring option \<Rightarrow> json io" where
  "auditCopyContent E content' platform' apiKey =
     (let ai = getGeminiClient E apiKey in
        try_catch
          (bind_io (await_generateContent E ai (audit_request content' platform'))
             (\<lambda>response.
                bind_io (settle (JSON_parse E (or_else (response_text response) (js ''{}''))))
                  (\<lambda>result. return_io result)))
          (\<lambda>error.
             bind_io (console_error (js ''Audit failed'') (LogError error)) (\<lambda>_.
             return_io audit_fallback)))"

subsection \<open>Image synthesis\<close>

definition image_prompt_head :: jsstring where
  \<comment> \<open>geminiService, line 329\<close>
  "image_prompt_head =
     js ''Based on this social media post, create a high-quality English image generation prompt for a lifestyle cover image suitable for ''"

definition image_prompt_middle :: jsstring where
  \<comment> \<open>geminiService, line 329\<close>
  "image_prompt_middle =
     js ''. Post content: '' @ [0x0022]"

definition image_prompt_tail :: jsstring where
  \<comment> \<open>geminiService, line 329\<close>
  "image_prompt_tail =
     js ''...'' @ [0x0022]"

definition image_prompt_generic :: jsstring where
  \<comment> \<open>geminiService, line 332\<close>
  "image_prompt_generic =
     js ''A high quality aesthetic photo for ''"

fun first_inlineData :: "part list \<Rightarrow> inline_data option" where
  \<comment> \<open>the \<open>for\<close> loop over the parts: the first part that carries inline data\<close>
  "first_inlineData [] = None"
| "first_inlineData (p # ps) =
     (case part_inlineData p of Some d \<Rightarrow> Some d | None \<Rightarrow> first_inlineData ps)"

definition response_parts :: "gemini_response \<Rightarrow> part list" where
  \<comment> \<open>\<open>response.candidates?.[0]?.content?.parts || []\<close>\<close>
  "response_parts r =
     (case candidates r of
        None \<Rightarrow> []
      | Some cs \<Rightarrow>
          (case cs of
             [] \<Rightarrow> []
           | c # _ \<Rightarrow>
               (case candidate_content c of
                  None \<Rightarrow> []
                | Some k \<Rightarrow> (case content_parts k of None \<Rightarrow> [] | Some ps \<Rightarrow> ps))))"

definition image_request :: "jsstring \<Rightarrow> gemini_request" where
  "image_request imagePrompt =
     \<lparr>model = getGeminiImageModel, req_contents = TextParts [imagePrompt],
      systemInstruction = None, thinkingBudget = None, responseMimeType = None,
      responseSchema = None, aspectRatio = Some (js ''3:4'')\<rparr>"

definition promptGen_request :: "jsstring \<Rightarrow> NicheType \<Rightarrow> gemini_request" where
  \<comment> \<open>the first call: deriving an image prompt from the copy\<close>
  "promptGen_request copyText niche' =
     plain_request flash_model
       (Prompt (image_prompt_head @ NicheType_value niche' @ image_prompt_middle
                @ substring 0 300 copyText @ image_prompt_tail))"

definition imagePrompt_of :: "gemini_response \<Rightarrow> NicheType \<Rightarrow> jsstring" where
  \<comment> \<open>\<open>promptGenResponse.text || `A high quality aesthetic photo for ${niche}`\<close>\<close>
  "imagePrompt_of promptGenResponse niche' =
     or_else (response_text promptGenResponse) (image_prompt_generic @ NicheType_value niche')"

definition generateImageForCopy ::
  "env \<Rightarrow> jsstring \<Rightarrow> NicheType \<Rightarrow> jsstring option \<Rightarrow> jsstring io" where
  "generateImageForCopy E copyText niche' apiKey =
     (let ai = getGeminiClient E apiKey in
        bind_io (await_generateContent E ai (promptGen_request copyText niche'))
          (\<lambda>promptGenResponse.
             let imagePrompt = imagePrompt_of promptGenResponse niche'
             in
               try_catch
                 (bind_io (await_generateContent E ai (image_request imagePrompt))
                    (\<lambda>response.
                       case first_inlineData (response_parts response) of
                         Some d \<Rightarrow>
                           return_io
                             (js ''data:image/png;base64,''
                              @ (case inline_bytes d of None \<Rightarrow> js ''undefined'' | Some b \<Rightarrow> b))
                       | None \<Rightarrow> throw_io (Error (js ''No image data found''))))
                 (\<lambda>error.
                    bind_io (console_error (js ''Image generation failed'') (LogError error)) (\<lambda>_.
                    throw_io error))))"

section \<open>The generation tab\<close>

definition alert_generate_failed :: jsstring where
  \<comment> \<open>GenerationTab, line 118\<close>
  "alert_generate_failed =
     [0x751F, 0x6210, 0x5931, 0x8D25, 0xFF0C, 0x8BF7, 0x68C0, 0x67E5, 0x7F51, 0x7EDC, 0x6216] @
     js ''API Key''"

definition alert_audit_updated :: jsstring where
  \<comment> \<open>GenerationTab, line 134\<close>
  "alert_audit_updated =
     [0x8BC4, 0x5206, 0x5DF2, 0x66F4, 0x65B0]"

definition alert_audit_failed :: jsstring where
  \<comment> \<open>GenerationTab, line 136\<close>
  "alert_audit_failed =
     [0x8BC4, 0x5206, 0x5931, 0x8D25]"

datatype ViewState = ConfigView | ResultView

record tab_props =
  thoughts_prop :: "Thought list"
  selectedThoughtIds_prop :: "jsstring list"
  globalSettings :: GlobalSettings

record tab_state =
  viewState :: ViewState
  ui_platform :: PlatformType
  ui_refUrl :: jsstring
  ui_withImage :: bool
  isSmartOrganizing :: bool
  isGenerating :: bool
  isAuditing :: bool
  isExtracting :: bool
  currentCopy :: "GeneratedCopy option"
  previewContent :: jsstring
  editedResult :: jsstring

definition fullConfig :: "tab_props \<Rightarrow> tab_state \<Rightarrow> GenerationConfig" where
  \<comment> \<open>\<open>{...globalSettings, platform, refUrl, selectedThoughtIds, styleMode: 'manual', withImage}\<close>\<close>
  "fullConfig props s =
     \<lparr>niche = niche (globalSettings props),
      styleDescription = styleDescription (globalSettings props),
      customApiKey = customApiKey (globalSettings props),
      aiProvider = aiProvider (globalSettings props),
      platform = ui_platform s, refUrl = ui_refUrl s,
      selectedThoughtIds = selectedThoughtIds_prop props, styleMode = manual,
      withImage = ui_withImage s\<rparr>"

definition crypto_randomUUID :: "env \<Rightarrow> jsstring io" where
  "crypto_randomUUID E = (\<lambda>w. (Inr (randomUUID E w), w))"

definition Date_now_io :: "env \<Rightarrow> nat io" where
  "Date_now_io E = (\<lambda>w. (Inr (Date_now E w), w))"

definition image_step :: "env \<Rightarrow> tab_props \<Rightarrow> tab_state \<Rightarrow> jsstring \<Rightarrow> jsstring option io" where
  \<comment> \<open>step 2 of \<open>handleGenerate\<close>: \<open>imageUrl\<close> stays \<open>undefined\<close> unless the image arrives\<close>
  "image_step E props s content' =
     (if ui_withImage s then
        try_catch
          (bind_io
             (generateImageForCopy E content' (niche (globalSettings props))
                (customApiKey (globalSettings props)))
             (\<lambda>url. return_io (Some url)))
          (\<lambda>e.
             bind_io (console_error (js ''Image generation failed'') (LogError e)) (\<lambda>_.
             return_io None))
      else return_io None)"

definition generate_cycle :: "env \<Rightarrow> tab_props \<Rightarrow> tab_state \<Rightarrow> tab_state io" where
  \<comment> \<open>the body of the \<open>try\<close> block of \<open>handleGenerate\<close>; the scroll to the top that it
      sets on a timer is display only and left out\<close>
  "generate_cycle E props s =
     bind_io
       (generateViralCopy E (fullConfig props s) (thoughts_prop props) (Some (previewContent s)))
       (\<lambda>content'.
          bind_io (image_step E props s content') (\<lambda>imageUrl.
          bind_io
            (auditCopyContent E content' (ui_platform s) (customApiKey (globalSettings props)))
            (\<lambda>audit.
               bind_io (crypto_randomUUID E) (\<lambda>uuid.
               bind_io (Date_now_io E) (\<lambda>now.
               return_io
                 (s\<lparr>currentCopy :=
                      Some \<lparr>copy_id = uuid, copy_config = fullConfig props s,
                            copy_content = content', copy_audit = audit,
                            copy_imageUrl = imageUrl, copy_createdAt = now\<rparr>,
                    editedResult := content',
                    viewState := ResultView\<rparr>))))))"

definition handleGenerate :: "env \<Rightarrow> tab_props \<Rightarrow> tab_state \<Rightarrow> tab_state io" where
  \<comment> \<open>\<open>setIsGenerating(true); try { cycle } catch { alert } finally { setIsGenerating(false) }\<close>\<close>
  "handleGenerate E props s =
     bind_io
       (try_catch (generate_cycle E props (s\<lparr>isGenerating := True\<rparr>))
          (\<lambda>error.
             bind_io (alert alert_generate_failed) (\<lambda>_.
             return_io (s\<lparr>isGenerating := True\<rparr>))))
       (\<lambda>s'. return_io (s'\<lparr>isGenerating := False\<rparr>))"

definition handleReAudit :: "env \<Rightarrow> tab_props \<Rightarrow> tab_state \<Rightarrow> tab_state io" where
  "handleReAudit E props s =
     (case currentCopy s of
        None \<Rightarrow> return_io s
      | Some cur \<Rightarrow>
          bind_io
            (try_catch
               (bind_io
                  (auditCopyContent E (editedResult s) (ui_platform s)
                     (customApiKey (globalSettings props)))
                  (\<lambda>newAudit.
                     bind_io (alert alert_audit_updated) (\<lambda>_.
                     return_io
                       (s\<lparr>isAuditing := True,
                          currentCopy :=
                            Some (cur\<lparr>copy_content := editedResult s, copy_audit := newAudit\<rparr>)\<rparr>))))
               (\<lambda>error.
                  bind_io (alert alert_audit_failed) (\<lambda>_.
                  return_io (s\<lparr>isAuditing := True\<rparr>))))
            (\<lambda>s'. return_io (s'\<lparr>isAuditing := False\<rparr>)))"


section \<open>Predicates used by the properties\<close>

fun starts_with :: "jsstring \<Rightarrow> jsstring \<Rightarrow> bool" where
  "starts_with s [] = True"
| "starts_with [] (p # ps) = False"
| "starts_with (c # cs) (p # ps) = (c = p \<and> starts_with cs ps)"

fun js_includes :: "jsstring \<Rightarrow> jsstring \<Rightarrow> bool" where
  \<comment> \<open>\<open>s.includes(p)\<close>\<close>
  "js_includes [] p = (p = [])"
| "js_includes (c # cs) p = (starts_with (c # cs) p \<or> js_includes cs p)"


definition new_calls :: "'a io \<Rightarrow> world \<Rightarrow> call list" where
  \<comment> \<open>the calls a run adds to the history\<close>
  "new_calls m w = drop (length (calls w)) (calls (snd (m w)))"

fun is_gemini_call :: "call \<Rightarrow> bool" where
  "is_gemini_call (GenerateContent key req) = True"
| "is_gemini_call (Fetch url init) = False"

definition field :: "json \<Rightarrow> jsstring \<Rightarrow> json option" where
  \<comment> \<open>reading a property of a parsed value; \<open>None\<close> is \<open>undefined\<close>\<close>
  "field v name = (case v of JObj kvs \<Rightarrow> map_of kvs name | _ \<Rightarrow> None)"

definition is_score :: "json option \<Rightarrow> bool" where
  \<comment> \<open>a whole number from 0 to 100\<close>
  "is_score v =
     (case v of Some (JNum q) \<Rightarrow> of_int \<lfloor>q\<rfloor> = q \<and> 0 \<le> q \<and> q \<le> 100 | _ \<Rightarrow> False)"

fun is_JStr :: "json \<Rightarrow> bool" where
  "is_JStr (JStr s) = True"
| "is_JStr _ = False"

definition is_string_list :: "json option \<Rightarrow> bool" where
  "is_string_list v = (case v of Some (JArr xs) \<Rightarrow> list_all is_JStr xs | _ \<Rightarrow> False)"

definition is_AuditScore :: "json \<Rightarrow> bool" where
  \<comment> \<open>the interface \<open>AuditScore\<close> of types.ts, with the range the schema's descriptions name\<close>
  "is_AuditScore v \<longleftrightarrow>
     is_score (field v (js ''headline'')) \<and> is_score (field v (js ''quality''))
     \<and> is_score (field v (js ''emotion'')) \<and> is_score (field v (js ''trending''))
     \<and> is_score (field v (js ''viralPotential'')) \<and> is_score (field v (js ''overall''))
     \<and> is_string_list (field v (js ''suggestions'')) \<and> is_string_list (field v (js ''pros''))
     \<and> is_string_list (field v (js ''sensitiveWords''))"

definition clean_label :: "jsstring \<Rightarrow> bool" where
  \<comment> \<open>a label as the tagging step leaves it: not empty, trimmed, free of both commas\<close>
  "clean_label t \<longleftrightarrow> t \<noteq> [] \<and> trim t = t \<and> comma \<notin> set t \<and> fullwidth_comma \<notin> set t"

section \<open>Sample runs\<close>

text \<open>
  Concrete environments, settings and states on which the definitions are evaluated. The
  sample \<open>JSON.parse\<close> reads the two JSON texts that the evaluated runs hand to it, the
  empty object and one reply that follows the audit schema; every other text handed to it
  in these runs is not JSON.
\<close>

definition fresh_world :: world where
  "fresh_world = \<lparr>calls = [], console = [], alerts = []\<rparr>"

definition quoted :: "string \<Rightarrow> jsstring" where
  "quoted s = [0x0022] @ js s @ [0x0022]"

definition score_text :: jsstring where
  \<comment> \<open>a reply that follows the audit schema, as JSON text\<close>
  "score_text =
     js ''{'' @ quoted ''headline'' @ js '':82,'' @ quoted ''quality'' @ js '':75,''
     @ quoted ''emotion'' @ js '':70,'' @ quoted ''trending'' @ js '':64,''
     @ quoted ''viralPotential'' @ js '':71,'' @ quoted ''overall'' @ js '':73,''
     @ quoted ''suggestions'' @ js '':['' @ quoted ''open with the dish'' @ js ''],''
     @ quoted ''pros'' @ js '':['' @ quoted ''concise'' @ js ''],''
     @ quoted ''sensitiveWords'' @ js '':[]}''"

definition score_value :: json where
  \<comment> \<open>what \<open>JSON.parse\<close> makes of \<open>score_text\<close>\<close>
  "score_value =
     JObj [(js ''headline'', JNum 82), (js ''quality'', JNum 75), (js ''emotion'', JNum 70),
           (js ''trending'', JNum 64), (js ''viralPotential'', JNum 71), (js ''overall'', JNum 73),
           (js ''suggestions'', JArr [JStr (js ''open with the dish'')]),
           (js ''pros'', JArr [JStr (js ''concise'')]), (js ''sensitiveWords'', JArr [])]"

definition sample_parse :: "jsstring \<Rightarrow> error + json" where
  "sample_parse s =
     (if s = js ''{}'' then Inr (JObj [])
      else if s = score_text then Inr score_value
      else Inl (SyntaxError s))"

definition stub_env :: "(error + http_response) \<Rightarrow> (error + gemini_response) \<Rightarrow> env" where
  \<comment> \<open>every \<open>fetch\<close> is answered by \<open>h\<close>, every \<open>generateContent\<close> by \<open>g\<close>\<close>
  "stub_env h g =
     \<lparr>API_KEY = None, fetch = (\<lambda>w url init. h), generateContent = (\<lambda>w key req. g),
      JSON_parse = sample_parse,
      randomUUID = (\<lambda>w. js ''uuid-'' @ nat_toString (length (calls w))),
      Date_now = (\<lambda>w. 1000 + length (calls w))\<rparr>"

definition text_response :: "jsstring option \<Rightarrow> gemini_response" where
  "text_response t = \<lparr>response_text = t, candidates = None\<rparr>"

definition unreachable :: error where
  "unreachable = Rejected (js ''Failed to fetch'')"

definition silent_env :: env where
  \<comment> \<open>the primary provider answers, but supplies no text\<close>
  "silent_env = stub_env (Inl unreachable) (Inr (text_response None))"

definition down_env :: env where
  \<comment> \<open>no provider can be reached\<close>
  "down_env = stub_env (Inl unreachable) (Inl unreachable)"

definition short_copy :: jsstring where
  "short_copy = js ''Fresh pasta, five minutes.''"

definition writer_env :: env where
  \<comment> \<open>the primary provider answers every request with the same short text and no image\<close>
  "writer_env = stub_env (Inl unreachable) (Inr (text_response (Some short_copy)))"

definition auditor_env :: env where
  \<comment> \<open>the primary provider answers every request with \<open>score_text\<close>\<close>
  "auditor_env = stub_env (Inl unreachable) (Inr (text_response (Some score_text)))"

definition two_labels :: jsstring where
  \<comment> \<open>two labels separated by a comma and a space\<close>
  "two_labels = [0x7F8E, 0x98DF] @ js '', '' @ [0x751F, 0x6D3B]"

definition food_tags_env :: env where
  \<comment> \<open>the primary provider answers every request with \<open>two_labels\<close>\<close>
  "food_tags_env = stub_env (Inl unreachable) (Inr (text_response (Some two_labels)))"





definition pasta :: Thought where
  "pasta =
     \<lparr>thought_id = js ''t1'', thought_content = js ''learned to cook pasta today'',
      thought_tags = [js ''food'', js ''life''], thought_createdAt = 1\<rparr>"

definition running :: Thought where
  "running =
     \<lparr>thought_id = js ''t2'', thought_content = js ''ran five miles'',
      thought_tags = [js ''sport''], thought_createdAt = 2\<rparr>"

definition sample_settings :: "AiProvider option \<Rightarrow> GlobalSettings" where
  "sample_settings p =
     \<lparr>niche = FOOD, styleDescription = js ''warm and brief'', customApiKey = None,
      aiProvider = p\<rparr>"

definition sample_props :: tab_props where
  "sample_props =
     \<lparr>thoughts_prop = [pasta, running], selectedThoughtIds_prop = [js ''t1''],
      globalSettings = sample_settings None\<rparr>"

definition sample_state :: "bool \<Rightarrow> tab_state" where
  \<comment> \<open>the configuration view before any generation, with the image switch as given\<close>
  "sample_state img =
     \<lparr>viewState = ConfigView, ui_platform = XIAOHONGSHU, ui_refUrl = [], ui_withImage = img,
      isSmartOrganizing = False, isGenerating = False, isAuditing = False, isExtracting = False,
      currentCopy = None, previewContent = [], editedResult = []\<rparr>"

definition sample_config :: "PlatformType \<Rightarrow> GenerationConfig" where
  "sample_config p =
     \<lparr>niche = FOOD, styleDescription = js ''warm and brief'', customApiKey = None,
      aiProvider = None, platform = p, refUrl = [], selectedThoughtIds = [js ''t1''],
      styleMode = manual, withImage = False\<rparr>"

definition sample_copy :: GeneratedCopy where
  "sample_copy =
     \<lparr>copy_id = js ''uuid-7'', copy_config = sample_config XIAOHONGSHU,
      copy_content = js ''first draft'', copy_audit = audit_fallback,
      copy_imageUrl = Some (js ''data:image/png;base64,AAAA''), copy_createdAt = 1007\<rparr>"

definition edited_state :: tab_state where
  \<comment> \<open>the result view after the user has edited the text of \<open>sample_copy\<close>\<close>
  "edited_state =
     (sample_state True)\<lparr>viewState := ResultView, currentCopy := Some sample_copy,
        editedResult := js ''second draft''\<rparr>"


section \<open>Facts about the string operations\<close>

lemmas io_defs = return_io_def throw_io_def bind_io_def try_catch_def settle_def console_error_def
  alert_def await_fetch_def await_generateContent_def

lemma split_on_nonempty: "split_on sep s \<noteq> []"
  by (induction s) (auto split: list.splits)

lemma split_on_no_sep: "t \<in> set (split_on sep s) \<Longrightarrow> sep \<notin> set t"
proof (induction s arbitrary: t)
  case Nil
  then show ?case by simp
next
  case (Cons c cs)
  show ?case
  proof (cases "c = sep")
    case True
    with Cons show ?thesis by auto
  next
    case False
    obtain u us where us: "split_on sep cs = u # us"
      using split_on_nonempty [of sep cs] by (cases "split_on sep cs") auto
    with Cons.prems False have "t = c # u \<or> t \<in> set us" by simp
    then show ?thesis
    proof
      assume "t = c # u"
      moreover have "sep \<notin> set u" using Cons.IH [of u] us by simp
      ultimately show ?thesis using False by auto
    next
      assume "t \<in> set us"
      then show ?thesis using Cons.IH [of t] us by simp
    qed
  qed
qed

lemma split_on_subset: "t \<in> set (split_on sep s) \<Longrightarrow> set t \<subseteq> set s"
proof (induction s arbitrary: t)
  case Nil
  then show ?case by simp
next
  case (Cons c cs)
  obtain u us where us: "split_on sep cs = u # us"
    using split_on_nonempty [of sep cs] by (cases "split_on sep cs") auto
  have "set u \<subseteq> set cs" using Cons.IH [of u] us by simp
  moreover have "\<And>v. v \<in> set us \<Longrightarrow> set v \<subseteq> set cs" using Cons.IH us by simp
  ultimately show ?case using Cons.prems us by (auto split: if_splits)
qed

lemma set_trim: "set (trim s) \<subseteq> set s"
proof -
  have "set (trim s) = set (dropWhile isWhiteSpace (rev (dropWhile isWhiteSpace s)))"
    by (simp add: trim_def)
  also have "\<dots> \<subseteq> set (rev (dropWhile isWhiteSpace s))"
    by (auto dest: set_dropWhileD)
  also have "\<dots> \<subseteq> set s"
    by (auto dest: set_dropWhileD)
  finally show ?thesis .
qed

lemma dropWhile_fixed: "xs = [] \<or> \<not> P (hd xs) \<Longrightarrow> dropWhile P xs = xs"
  by (cases xs) auto

lemma last_dropWhile: "dropWhile P xs \<noteq> [] \<Longrightarrow> last (dropWhile P xs) = last xs"
  by (induction xs) (auto split: if_splits)

lemma trim_trim: "trim (trim s) = trim s"
proof -
  define a where "a = dropWhile isWhiteSpace s"
  define b where "b = dropWhile isWhiteSpace (rev a)"
  have u: "trim s = rev b" by (simp add: trim_def a_def b_def)
  have b_fixed: "dropWhile isWhiteSpace b = b"
    by (simp add: b_def)
  have "dropWhile isWhiteSpace (rev b) = rev b"
  proof (cases "b = []")
    case True
    then show ?thesis by simp
  next
    case False
    then have "last b = last (rev a)"
      unfolding b_def by (rule last_dropWhile)
    moreover from False have "a \<noteq> []" by (auto simp: b_def)
    ultimately have "last b = hd a" by (simp add: last_rev)
    moreover have "\<not> isWhiteSpace (hd a)"
      using \<open>a \<noteq> []\<close> unfolding a_def by (rule hd_dropWhile)
    ultimately have "\<not> isWhiteSpace (hd (rev b))"
      using False by (simp add: hd_rev)
    then show ?thesis by (intro dropWhile_fixed) simp
  qed
  then have "trim (rev b) = rev (dropWhile isWhiteSpace (rev (rev b)))"
    by (simp add: trim_def)
  also have "\<dots> = rev b" using b_fixed by simp
  finally show ?thesis by (simp add: u)
qed

lemma trim_nonempty: "trim b \<noteq> [] \<Longrightarrow> b \<noteq> []"
  by (auto simp: trim_def)

lemma starts_with_append: "starts_with (p @ b) p"
  by (induction p) auto

lemma js_includes_prefix: "js_includes (p @ b) p"
proof (cases "p @ b")
  case Nil
  then show ?thesis by simp
next
  case (Cons c cs)
  have "starts_with (p @ b) p" by (rule starts_with_append)
  then show ?thesis by (simp add: Cons)
qed

lemma js_includes_append: "js_includes (a @ p @ b) p"
proof (induction a)
  case Nil
  show ?case using js_includes_prefix [of p b] by simp
next
  case (Cons c cs)
  then show ?case by simp
qed

lemma join_holds_element:
  "x \<in> set xs \<Longrightarrow> \<exists>a b. join sep xs = a @ x @ b"
proof (induction sep xs rule: join.induct)
  case (1 sep)
  then show ?case by simp
next
  case (2 sep y)
  then have "join sep [y] = [] @ x @ []" by simp
  then show ?case by blast
next
  case (3 sep y z zs)
  show ?case
  proof (cases "x = y")
    case True
    then have "join sep (y # z # zs) = [] @ x @ (sep @ join sep (z # zs))" by simp
    then show ?thesis by blast
  next
    case False
    with 3 obtain a b where "join sep (z # zs) = a @ x @ b" by auto
    then have "join sep (y # z # zs) = (y @ sep @ a) @ x @ b" by simp
    then show ?thesis by blast
  qed
qed

lemma or_else_simps:
  "or_else None d = d"
  "s \<noteq> [] \<Longrightarrow> or_else (Some s) d = s"
  "or_else (Some []) d = d"
  by (simp_all add: or_else_def)

lemma provider_tests:
  "or_else p (js ''gemini'') = js ''deepseek'' \<longleftrightarrow> p = Some (js ''deepseek'')"
  "or_else p (js ''gemini'') = js ''qwen'' \<longleftrightarrow> p = Some (js ''qwen'')"
  by (auto simp: or_else_def js_def split: option.splits)

lemma provider_names:
  "js ''deepseek'' \<noteq> js ''qwen''" "js ''qwen'' \<noteq> js ''deepseek''"
  by (simp_all add: js_def)


section \<open>Facts about the sample runs\<close>

lemma stub_env_sel:
  "API_KEY (stub_env h g) = None"
  "fetch (stub_env h g) w url init = h"
  "generateContent (stub_env h g) w key req = g"
  "JSON_parse (stub_env h g) = sample_parse"
  "randomUUID (stub_env h g) w = js ''uuid-'' @ nat_toString (length (calls w))"
  "Date_now (stub_env h g) w = 1000 + length (calls w)"
  by (simp_all add: stub_env_def)

lemma getGeminiClient_stub: "getGeminiClient (stub_env h g) None = []"
  by (simp add: getGeminiClient_def or_else_simps stub_env_sel)

lemma response_text_text_response: "response_text (text_response t) = t"
  by (simp add: text_response_def)

lemma short_copy_nonempty: "short_copy \<noteq> []"
  by (simp add: short_copy_def js_def)

lemma score_text_nonempty: "score_text \<noteq> []"
  by (simp add: score_text_def js_def)

lemma sample_parse_short_copy: "sample_parse short_copy = Inl (SyntaxError short_copy)"
  by (simp add: sample_parse_def short_copy_def score_text_def quoted_def js_def)

lemma sample_parse_score_text: "sample_parse score_text = Inr score_value"
  by (simp add: sample_parse_def score_text_def quoted_def js_def)

lemma sample_parse_empty_object: "sample_parse (js ''{}'') = Inr (JObj [])"
  by (simp add: sample_parse_def)

lemma sample_fullConfig:
  "aiProvider (fullConfig sample_props (sample_state img)) = None"
  "customApiKey (fullConfig sample_props (sample_state img)) = None"
  by (simp_all add: fullConfig_def sample_props_def sample_settings_def)

lemma sample_state_sel:
  "ui_withImage (sample_state img) = img"
  "ui_platform (sample_state img) = XIAOHONGSHU"
  "currentCopy (sample_state img) = None"
  "(sample_state img)\<lparr>isGenerating := False\<rparr> = sample_state img"
  by (simp_all add: sample_state_def)


lemma writer_env_reply:
  "generateContent writer_env w key req = Inr (text_response (Some short_copy))"
  "JSON_parse writer_env = sample_parse"
  "getGeminiClient writer_env None = []"
  "randomUUID writer_env w = js ''uuid-'' @ nat_toString (length (calls w))"
  "Date_now writer_env w = 1000 + length (calls w)"
  by (simp_all add: writer_env_def stub_env_sel getGeminiClient_stub)

lemma writer_replies:
  "first_inlineData (response_parts (text_response (Some short_copy))) = None"
  "imagePrompt_of (text_response (Some short_copy)) n = short_copy"
  "or_else (response_text (text_response (Some short_copy))) d = short_copy"
  by (simp_all add: response_parts_def imagePrompt_of_def text_response_def or_else_simps
      short_copy_nonempty)

lemma silent_env_reply:
  "generateContent silent_env w key req = Inr (text_response None)"
  "JSON_parse silent_env = sample_parse"
  by (simp_all add: silent_env_def stub_env_sel)


section \<open>Facts about the service functions\<close>

subsection \<open>Tagging\<close>

lemma clean_tags_labels: "t \<in> set (clean_tags r) \<Longrightarrow> clean_label t"
proof -
  assume "t \<in> set (clean_tags r)"
  then obtain u where t: "t = trim u" and u: "u \<in> set (split_on comma (replace_all fullwidth_comma comma r))"
    and ne: "t \<noteq> []"
    by (auto simp: clean_tags_def)
  have no_comma: "comma \<notin> set u" using u by (rule split_on_no_sep)
  have "fullwidth_comma \<notin> set (replace_all fullwidth_comma comma r)"
    by (auto simp: replace_all_def fullwidth_comma_def comma_def)
  moreover have "set u \<subseteq> set (replace_all fullwidth_comma comma r)"
    using u by (rule split_on_subset)
  ultimately have "fullwidth_comma \<notin> set u" by auto
  with no_comma set_trim [of u] have "comma \<notin> set t" "fullwidth_comma \<notin> set t"
    using t by auto
  then show ?thesis using ne t by (simp add: clean_label_def trim_trim)
qed

lemma clean_label_sentinel: "clean_label tag_sentinel"
  by (simp add: clean_label_def tag_sentinel_def trim_def isWhiteSpace_def comma_def
      fullwidth_comma_def)

lemma list_all_take: "list_all P xs \<Longrightarrow> list_all P (take n xs)"
  by (auto simp: list_all_iff dest: in_set_takeD)


subsection \<open>Audit\<close>

lemma auditCopyContent_cases:
  "\<exists>v w'. auditCopyContent E c p k w = (Inr v, w')
     \<and> (case generateContent E w (getGeminiClient E k) (audit_request c p) of
          Inl e \<Rightarrow> v = audit_fallback
        | Inr r \<Rightarrow>
            (case JSON_parse E (or_else (response_text r) (js ''{}'')) of
               Inl e \<Rightarrow> v = audit_fallback
             | Inr j \<Rightarrow> v = j))"
  by (simp add: auditCopyContent_def io_defs Let_def split: sum.splits)

lemma audit_value:
  "fst (auditCopyContent E c p k w)
     = Inr (case generateContent E w (getGeminiClient E k) (audit_request c p) of
              Inl e \<Rightarrow> audit_fallback
            | Inr r \<Rightarrow>
                (case JSON_parse E (or_else (response_text r) (js ''{}'')) of
                   Inl e \<Rightarrow> audit_fallback
                 | Inr j \<Rightarrow> j))"
  by (simp add: auditCopyContent_def io_defs Let_def split: sum.splits)


lemma audit_deterministic:
  assumes "\<forall>w1 w2 key req. generateContent E w1 key req = generateContent E w2 key req"
  shows "fst (auditCopyContent E c p k w) = fst (auditCopyContent E c p k w')"
proof -
  have "generateContent E w (getGeminiClient E k) (audit_request c p)
          = generateContent E w' (getGeminiClient E k) (audit_request c p)"
    using assms by blast
  then show ?thesis by (simp only: audit_value)
qed

lemma is_AuditScore_fallback: "is_AuditScore audit_fallback"
  by (simp add: is_AuditScore_def audit_fallback_def field_def is_score_def is_string_list_def
      js_def)


subsection \<open>Copy generation\<close>

lemma source_literals:
  "base_draft_header
     = [0x57FA, 0x7840, 0x8349, 0x7A3F, 0x5185, 0x5BB9] @ js '' ('' @ [0x8BF7, 0x57FA, 0x4E8E,
       0x6B64, 0x5185, 0x5BB9, 0x8FDB, 0x884C, 0x4F18, 0x5316, 0x548C, 0x683C, 0x5F0F, 0x5316]
       @ js ''):'' @ [0x000A]"
  "thoughts_header = [0x7528, 0x6237, 0x788E, 0x7247, 0x60F3, 0x6CD5] @ js '':'' @ [0x000A]"
  "annotated
     = (\<lambda>t. js ''- '' @ thought_content t @ js '' ('' @ [0x6807, 0x7B7E] @ js '': ''
             @ join (js '', '') (thought_tags t) @ js '')'')"
  "newline = [0x000A]"
  by (simp_all add: base_draft_header_def thoughts_header_def annotated_def tags_label_def
      newline_def fun_eq_iff)

lemma contentSource_fragments:
  assumes "base = None \<or> base = Some b \<and> trim b = []"
  shows "contentSource config thoughts base
           = thoughts_header
             @ join newline
                 (map annotated
                    (filter (\<lambda>t. thought_id t \<in> set (selectedThoughtIds config)) thoughts))"
  using assms by (auto simp: contentSource_def thoughtContent_def)

lemma contentSource_holds_fragment:
  assumes base: "base = None \<or> base = Some b \<and> trim b = []"
    and t: "t \<in> set thoughts" "thought_id t \<in> set (selectedThoughtIds config)"
  shows "js_includes (contentSource config thoughts base) (thought_content t)"
    and "\<forall>g\<in>set (thought_tags t). js_includes (contentSource config thoughts base) g"
proof -
  let ?sel = "filter (\<lambda>t. thought_id t \<in> set (selectedThoughtIds config)) thoughts"
  from t have "annotated t \<in> set (map annotated ?sel)" by simp
  then obtain a z where "join newline (map annotated ?sel) = a @ annotated t @ z"
    using join_holds_element by blast
  with contentSource_fragments [OF base, of config thoughts]
  have src: "contentSource config thoughts base = thoughts_header @ a @ annotated t @ z"
    by simp
  then have "contentSource config thoughts base
               = (thoughts_header @ a @ js ''- '') @ thought_content t
                 @ (tags_label @ join (js '', '') (thought_tags t) @ js '')'' @ z)"
    by (simp add: annotated_def)
  then show "js_includes (contentSource config thoughts base) (thought_content t)"
    by (simp only: js_includes_append)
  show "\<forall>g\<in>set (thought_tags t). js_includes (contentSource config thoughts base) g"
  proof
    fix g assume "g \<in> set (thought_tags t)"
    then obtain c d where "join (js '', '') (thought_tags t) = c @ g @ d"
      using join_holds_element by blast
    with src have "contentSource config thoughts base
               = (thoughts_header @ a @ js ''- '' @ thought_content t @ tags_label @ c) @ g
                 @ (d @ js '')'' @ z)"
      by (simp add: annotated_def)
    then show "js_includes (contentSource config thoughts base) g"
      by (simp only: js_includes_append)
  qed
qed


lemma generateViralCopy_native:
  assumes "aiProvider config = None"
  shows "generateViralCopy E config ths base w
           = (case generateContent E w (getGeminiClient E (customApiKey config))
                     (copy_request copy_systemPrompt (copy_userPrompt config ths base)) of
                Inl e \<Rightarrow> Inl e
              | Inr r \<Rightarrow> Inr (or_else (response_text r) []),
              w\<lparr>calls := calls w @ [GenerateContent (getGeminiClient E (customApiKey config))
                     (copy_request copy_systemPrompt (copy_userPrompt config ths base))]\<rparr>)"
  using assms by (simp add: generateViralCopy_def io_defs Let_def split: sum.splits)

lemma callOpenAICompatible_rejected:
  assumes "fetch E w url (chat_request m k sp up) = Inl e"
  shows "fst (callOpenAICompatible E url m k sp up w) = Inl e"
  using assms by (simp add: callOpenAICompatible_def io_defs)

lemma generateViralCopy_alt:
  assumes "aiProvider config = Some a" and "a \<noteq> gemini"
  shows "generateViralCopy E config ths base
           = callOpenAICompatible E (if a = deepseek then deepseek_url else qwen_url)
               (if a = deepseek then js ''deepseek-chat'' else js ''qwen-plus'')
               (or_else (customApiKey config) (or_else (API_KEY E) []))
               copy_systemPrompt (copy_userPrompt config ths base)"
  using assms
  by (cases a)
     (simp_all add: generateViralCopy_def generateText_def Let_def provider_tests provider_names)

lemma generateViralCopy_native_failure:
  assumes "aiProvider config = None \<or> aiProvider config = Some gemini"
    and "generateContent E w (getGeminiClient E (customApiKey config))
           (copy_request copy_systemPrompt (copy_userPrompt config ths base)) = Inl e"
  shows "fst (generateViralCopy E config ths base w) = Inl e"
  using assms by (auto simp: generateViralCopy_def io_defs Let_def)


subsection \<open>The calls each function makes\<close>

lemma new_calls_bind_quiet:
  assumes "\<And>x w'. calls (snd (f x w')) = calls w'"
  shows "new_calls (bind_io m f) w = new_calls m w"
  using assms by (cases "m w") (auto simp: new_calls_def bind_io_def split: sum.splits)

lemma new_calls_try_catch_quiet:
  assumes "\<And>e w'. calls (snd (h e w')) = calls w'"
  shows "new_calls (try_catch m h) w = new_calls m w"
  using assms by (cases "m w") (auto simp: new_calls_def try_catch_def split: sum.splits)

lemma new_calls_audit:
  "new_calls (auditCopyContent E c p k) w
     = [GenerateContent (getGeminiClient E k) (audit_request c p)]"
  by (simp add: new_calls_def auditCopyContent_def io_defs Let_def split: sum.splits)

lemma new_calls_style:
  "new_calls (analyzeStyleFromText E ex k) w
     = [GenerateContent (getGeminiClient E k) (style_request ex)]"
  by (simp add: new_calls_def analyzeStyleFromText_def io_defs split: sum.splits)

lemma new_calls_organize:
  "new_calls (smartOrganizeThoughts E ths k) w
     = (if ths = [] then [] else [GenerateContent (getGeminiClient E k) (organize_request ths)])"
  by (simp add: new_calls_def smartOrganizeThoughts_def io_defs Let_def split: sum.splits)

lemma new_calls_image:
  "\<exists>rest. new_calls (generateImageForCopy E c n k) w
     = GenerateContent (getGeminiClient E k) (promptGen_request c n) # rest
     \<and> list_all is_gemini_call rest"
  by (simp add: new_calls_def generateImageForCopy_def io_defs Let_def
      split: sum.splits option.splits)

lemma new_calls_callOpenAICompatible:
  "new_calls (callOpenAICompatible E url m k sp up) w = [Fetch url (chat_request m k sp up)]"
  by (simp add: new_calls_def callOpenAICompatible_def io_defs split: sum.splits option.splits)

lemma new_calls_generateText:
  "new_calls (generateText E sp up (Some opts)) w
     = (let key = or_else (opt_customApiKey opts) (or_else (API_KEY E) []) in
        if opt_aiProvider opts = Some (js ''deepseek'') then
          [Fetch deepseek_url (chat_request (js ''deepseek-chat'') key sp up)]
        else if opt_aiProvider opts = Some (js ''qwen'') then
          [Fetch qwen_url (chat_request (js ''qwen-plus'') key sp up)]
        else [GenerateContent (getGeminiClient E (Some key)) (text_request sp up (Some opts))])"
proof -
  have p: "or_else (opt_aiProvider opts) (js ''gemini'') = js ''deepseek''
             \<longleftrightarrow> opt_aiProvider opts = Some (js ''deepseek'')"
    "or_else (opt_aiProvider opts) (js ''gemini'') = js ''qwen''
             \<longleftrightarrow> opt_aiProvider opts = Some (js ''qwen'')"
    by (auto simp: or_else_def js_def split: option.splits)
  have g: "new_calls (bind_io (await_generateContent E key req) f) w = [GenerateContent key req]"
    if "\<And>r. f r = return_io (g r)" for key req and f :: "gemini_response \<Rightarrow> jsstring io" and g
    using that by (simp add: new_calls_def io_defs split: sum.splits)
  show ?thesis
    by (simp add: generateText_def Let_def p new_calls_callOpenAICompatible g)
qed

lemma new_calls_tags:
  "new_calls (generateTagsForThought E txt k provider) w
     = (let key = or_else k (or_else (API_KEY E) []);
            opts = Some \<lparr>opt_customApiKey = k, opt_aiProvider = provider,
                         opt_thinkingBudget = None\<rparr>
        in
          if provider = Some (js ''deepseek'') then
            [Fetch deepseek_url
               (chat_request (js ''deepseek-chat'') key tags_systemPrompt (tags_userPrompt txt))]
          else if provider = Some (js ''qwen'') then
            [Fetch qwen_url
               (chat_request (js ''qwen-plus'') key tags_systemPrompt (tags_userPrompt txt))]
          else
            [GenerateContent (getGeminiClient E (Some key))
               (text_request tags_systemPrompt (tags_userPrompt txt) opts)])"
proof -
  let ?opts = "\<lparr>opt_customApiKey = k, opt_aiProvider = provider, opt_thinkingBudget = None\<rparr>"
  let ?call = "generateText E tags_systemPrompt (tags_userPrompt txt) (Some ?opts)"
  have "new_calls (generateTagsForThought E txt k provider) w = new_calls ?call w"
    unfolding generateTagsForThought_def Let_def
    by (subst new_calls_try_catch_quiet, simp add: bind_io_def console_error_def return_io_def,
        subst new_calls_bind_quiet, simp add: return_io_def, rule refl)
  then show ?thesis
    by (simp only: new_calls_generateText) (simp add: Let_def)
qed

lemma new_calls_copy:
  "new_calls (generateViralCopy E config ths base) w
     = (let key = or_else (customApiKey config) (or_else (API_KEY E) []);
            user = copy_userPrompt config ths base
        in
          case aiProvider config of
            Some deepseek \<Rightarrow>
              [Fetch deepseek_url (chat_request (js ''deepseek-chat'') key copy_systemPrompt user)]
          | Some qwen \<Rightarrow>
              [Fetch qwen_url (chat_request (js ''qwen-plus'') key copy_systemPrompt user)]
          | _ \<Rightarrow>
              [GenerateContent (getGeminiClient E (customApiKey config))
                 (copy_request copy_systemPrompt user)])"
proof -
  let ?user = "copy_userPrompt config ths base"
  let ?native = "bind_io
            (await_generateContent E (getGeminiClient E (customApiKey config))
               (copy_request copy_systemPrompt ?user))
            (\<lambda>response. return_io (or_else (response_text response) []))"
  let ?alt = "\<lambda>a. generateText E copy_systemPrompt ?user
            (Some \<lparr>opt_customApiKey = customApiKey config,
                   opt_aiProvider = Some (AiProvider_value a),
                   opt_thinkingBudget = None\<rparr>)"
  have native: "new_calls ?native w
                  = [GenerateContent (getGeminiClient E (customApiKey config))
                       (copy_request copy_systemPrompt ?user)]"
    by (simp add: new_calls_def io_defs split: sum.splits)
  show ?thesis
  proof (cases "aiProvider config")
    case None
    then have "generateViralCopy E config ths base = ?native"
      by (simp add: generateViralCopy_def Let_def)
    with None native show ?thesis by simp
  next
    case (Some a)
    show ?thesis
    proof (cases a)
      case gemini
      with Some have "generateViralCopy E config ths base = ?native"
        by (simp add: generateViralCopy_def Let_def)
      with Some gemini native show ?thesis by simp
    next
      case deepseek
      with Some have "generateViralCopy E config ths base = ?alt deepseek"
        by (simp add: generateViralCopy_def Let_def)
      with Some deepseek show ?thesis
        by (simp add: new_calls_generateText Let_def)
    next
      case qwen
      with Some have "generateViralCopy E config ths base = ?alt qwen"
        by (simp add: generateViralCopy_def Let_def)
      with Some qwen show ?thesis
        by (simp add: new_calls_generateText Let_def provider_names)
    qed
  qed
qed


subsection \<open>The generation tab\<close>

lemma fullConfig_isGenerating: "fullConfig props (s\<lparr>isGenerating := g\<rparr>) = fullConfig props s"
  by (simp add: fullConfig_def)






lemma reaudit_run:
  assumes "currentCopy s = Some cur"
  shows "\<exists>v w'. auditCopyContent E (editedResult s) (ui_platform s)
                   (customApiKey (globalSettings props)) w = (Inr v, w')
           \<and> handleReAudit E props s w
               = (Inr (s\<lparr>isAuditing := False,
                         currentCopy := Some (cur\<lparr>copy_content := editedResult s,
                                                   copy_audit := v\<rparr>)\<rparr>),
                  w'\<lparr>alerts := alerts w' @ [alert_audit_updated]\<rparr>)"
proof -
  from auditCopyContent_cases
  obtain v w' where "auditCopyContent E (editedResult s) (ui_platform s)
                   (customApiKey (globalSettings props)) w = (Inr v, w')"
    by blast
  with assms show ?thesis
    by (simp add: handleReAudit_def bind_io_def try_catch_def return_io_def alert_def)
qed

lemma new_calls_image_step:
  "list_all is_gemini_call (new_calls (image_step E props s c) w)"
proof (cases "ui_withImage s")
  case True
  let ?g = "generateImageForCopy E c (niche (globalSettings props))
              (customApiKey (globalSettings props))"
  have "new_calls (image_step E props s c) w = new_calls ?g w"
    using True by (simp add: new_calls_def image_step_def io_defs split: sum.splits prod.splits)
  with new_calls_image [of E c "niche (globalSettings props)" "customApiKey (globalSettings props)" w]
  show ?thesis by auto
next
  case False
  then show ?thesis by (simp add: new_calls_def image_step_def io_defs)
qed

lemma new_calls_reaudit:
  "list_all is_gemini_call (new_calls (handleReAudit E props s) w)"
proof (cases "currentCopy s")
  case None
  then show ?thesis by (simp add: new_calls_def handleReAudit_def return_io_def)
next
  case (Some cur)
  from reaudit_run [OF Some, of E props w]
  obtain v w' where a: "auditCopyContent E (editedResult s) (ui_platform s)
                   (customApiKey (globalSettings props)) w = (Inr v, w')"
    and run: "handleReAudit E props s w
               = (Inr (s\<lparr>isAuditing := False,
                         currentCopy := Some (cur\<lparr>copy_content := editedResult s,
                                                   copy_audit := v\<rparr>)\<rparr>),
                  w'\<lparr>alerts := alerts w' @ [alert_audit_updated]\<rparr>)"
    by blast
  have "new_calls (handleReAudit E props s) w
          = new_calls (auditCopyContent E (editedResult s) (ui_platform s)
                         (customApiKey (globalSettings props))) w"
    by (simp add: new_calls_def run a)
  then show ?thesis by (simp add: new_calls_audit)
qed


section \<open>The audit engine\<close>

text \<open>
  C1. The audit is to return the fallback object whenever the provider call fails, the
  returned text fails to parse, or the parsed object misses a required field. The code
  does so on the first two paths and not on the third: when the provider answers with no
  text, the source parses its own default text \<open>{}\<close> and returns the empty object, which
  has no \<open>suggestions\<close> and is not the fallback. The runs below are: a provider that
  answers with no text, no provider reachable, and a reply that is not JSON.
\<close>

theorem audit_keeps_incomplete_reply:
  "fst (auditCopyContent silent_env short_copy XIAOHONGSHU None fresh_world) = Inr (JObj [])
   \<and> field (JObj []) (js ''suggestions'') = None
   \<and> JObj [] \<noteq> audit_fallback
   \<and> fst (auditCopyContent down_env short_copy XIAOHONGSHU None fresh_world) = Inr audit_fallback
   \<and> fst (auditCopyContent writer_env short_copy XIAOHONGSHU None fresh_world) = Inr audit_fallback"
proof -
  have "fst (auditCopyContent silent_env short_copy XIAOHONGSHU None fresh_world) = Inr (JObj [])"
    by (simp add: audit_value silent_env_reply response_text_text_response or_else_simps
        sample_parse_empty_object)
  moreover have "field (JObj []) (js ''suggestions'') = None" "JObj [] \<noteq> audit_fallback"
    by (simp_all add: field_def audit_fallback_def)
  moreover have "fst (auditCopyContent down_env short_copy XIAOHONGSHU None fresh_world)
                   = Inr audit_fallback"
    by (simp add: audit_value down_env_def stub_env_sel)
  moreover have "fst (auditCopyContent writer_env short_copy XIAOHONGSHU None fresh_world)
                   = Inr audit_fallback"
    by (simp add: audit_value writer_env_reply writer_replies sample_parse_short_copy)
  ultimately show ?thesis by simp
qed

text \<open>
  C9. Every value the audit returns is to have the nine fields of \<open>AuditScore\<close>, its six
  scores whole numbers from 0 to 100. The fallback object has them; the value returned
  for a provider that answers with no text, the empty object, has none of them.
\<close>

theorem audit_result_without_fields:
  "fst (auditCopyContent silent_env short_copy TIKTOK None fresh_world) = Inr (JObj [])
   \<and> \<not> is_AuditScore (JObj [])
   \<and> is_AuditScore audit_fallback"
proof -
  have "fst (auditCopyContent silent_env short_copy TIKTOK None fresh_world) = Inr (JObj [])"
    by (simp add: audit_value silent_env_reply response_text_text_response or_else_simps
        sample_parse_empty_object)
  moreover have "\<not> is_AuditScore (JObj [])"
    by (simp add: is_AuditScore_def field_def is_score_def)
  ultimately show ?thesis using is_AuditScore_fallback by simp
qed


section \<open>Tagging\<close>

text \<open>
  C2, as the code has it. For every fragment text, key, provider name and environment,
  \<open>generateTagsForThought\<close> returns (it never raises) a list of at most three labels, each
  of them non-empty, trimmed and free of both the ASCII and the full-width comma. When the
  text-generation call fails the list is exactly the one-element sentinel list; when it
  succeeds the list is the first three cleaned labels of the reply. The list may be empty:
  no lower bound holds.
\<close>

theorem tags_bounded_and_clean:
  "\<exists>tags w'.
     generateTagsForThought E txt apiKey provider w = (Inr tags, w')
     \<and> length tags \<le> 3 \<and> list_all clean_label tags
     \<and> (case fst (generateText E tags_systemPrompt (tags_userPrompt txt)
                     (Some \<lparr>opt_customApiKey = apiKey, opt_aiProvider = provider,
                            opt_thinkingBudget = None\<rparr>) w) of
          Inl e \<Rightarrow> tags = [tag_sentinel]
        | Inr reply \<Rightarrow> tags = take 3 (clean_tags reply))"
proof -
  let ?call = "generateText E tags_systemPrompt (tags_userPrompt txt)
                 (Some \<lparr>opt_customApiKey = apiKey, opt_aiProvider = provider,
                        opt_thinkingBudget = None\<rparr>)"
  obtain r w1 where call: "?call w = (r, w1)" by (cases "?call w")
  show ?thesis
  proof (cases r)
    case (Inl e)
    with call show ?thesis
      by (simp add: generateTagsForThought_def io_defs clean_label_sentinel)
  next
    case (Inr reply)
    have "list_all clean_label (clean_tags reply)"
      by (simp add: list_all_iff clean_tags_labels)
    then have "list_all clean_label (take 3 (clean_tags reply))"
      by (rule list_all_take)
    with call Inr show ?thesis
      by (simp add: generateTagsForThought_def io_defs)
  qed
qed

text \<open>
  The theorem at two runs: with no provider reachable the sentinel comes back, and a reply
  of two labels separated by a comma and a space gives these two labels.
\<close>

theorem tags_bounded_and_clean_witness:
  "fst (generateTagsForThought down_env (js ''learned to cook pasta today'') None None fresh_world)
     = Inr [tag_sentinel]
   \<and> fst (generateTagsForThought food_tags_env (js ''learned to cook pasta today'') None None
            fresh_world)
     = Inr [[0x7F8E, 0x98DF], [0x751F, 0x6D3B]]"
proof -
  let ?opts = "Some \<lparr>opt_customApiKey = None, opt_aiProvider = None, opt_thinkingBudget = None\<rparr>"
  let ?txt = "js ''learned to cook pasta today''"
  have down: "fst (generateText down_env tags_systemPrompt (tags_userPrompt ?txt) ?opts fresh_world)
                = Inl unreachable"
    by (simp add: generateText_def down_env_def stub_env_def io_defs or_else_def js_def)
  have food: "fst (generateText food_tags_env tags_systemPrompt (tags_userPrompt ?txt) ?opts
                fresh_world) = Inr two_labels"
    by (simp add: generateText_def food_tags_env_def stub_env_def io_defs or_else_def js_def
        text_response_def two_labels_def)
  have labels: "take 3 (clean_tags two_labels) = [[0x7F8E, 0x98DF], [0x751F, 0x6D3B]]"
    by (simp add: clean_tags_def replace_all_def comma_def fullwidth_comma_def js_def trim_def
        isWhiteSpace_def two_labels_def)
  have "fst (generateTagsForThought down_env ?txt None None fresh_world) = Inr [tag_sentinel]"
    using tags_bounded_and_clean [of down_env ?txt None None fresh_world]
    by (auto simp: down)
  moreover have "fst (generateTagsForThought food_tags_env ?txt None None fresh_world)
                   = Inr (take 3 (clean_tags two_labels))"
    using tags_bounded_and_clean [of food_tags_env ?txt None None fresh_world]
    by (auto simp: food)
  ultimately show ?thesis by (simp only: labels simp_thms)
qed

text \<open>
  C2 as stated fails in its lower bound: a provider that answers with no text makes the
  tagging step return the empty list, not a list of one to three labels.
\<close>

theorem tags_may_be_empty:
  "fst (generateTagsForThought silent_env (js ''learned to cook pasta today'') None None
          fresh_world) = Inr []"
  by (simp add: generateTagsForThought_def generateText_def silent_env_def stub_env_def io_defs
      or_else_def js_def text_response_def clean_tags_def replace_all_def trim_def)


section \<open>The generation cycle\<close>

text \<open>
  C3, as the code has it. If the copy-generation step fails, the whole generation cycle
  fails: the error leaves the body of the cycle at once, with no image synthesis and no
  audit (the history is the one copy generation left), and no \<open>GeneratedCopy\<close> record is
  built or installed. \<open>handleGenerate\<close> itself catches the error: it shows the failure
  alert and returns normally, its state unchanged but for the busy flag. Copy generation
  has no fallback of its own: when the call to the configured provider is rejected,
  \<open>generateViralCopy\<close> fails with that error.
\<close>

theorem copy_failure_aborts_cycle:
  "(generateViralCopy E (fullConfig props s) (thoughts_prop props) (Some (previewContent s)) w
      = (Inl e, w1)
    \<longrightarrow> generate_cycle E props (s\<lparr>isGenerating := True\<rparr>) w = (Inl e, w1)
        \<and> handleGenerate E props s w
            = (Inr (s\<lparr>isGenerating := False\<rparr>),
               w1\<lparr>alerts := alerts w1 @ [alert_generate_failed]\<rparr>))
   \<and> ((aiProvider config = None \<or> aiProvider config = Some gemini)
       \<and> generateContent E w (getGeminiClient E (customApiKey config))
            (copy_request copy_systemPrompt (copy_userPrompt config ths base)) = Inl e
    \<longrightarrow> fst (generateViralCopy E config ths base w) = Inl e)
   \<and> (aiProvider config = Some a \<and> a \<noteq> gemini
       \<and> fetch E w (if a = deepseek then deepseek_url else qwen_url)
            (chat_request (if a = deepseek then js ''deepseek-chat'' else js ''qwen-plus'')
               (or_else (customApiKey config) (or_else (API_KEY E) []))
               copy_systemPrompt (copy_userPrompt config ths base)) = Inl e
    \<longrightarrow> fst (generateViralCopy E config ths base w) = Inl e)"
proof (intro conjI impI)
  assume "generateViralCopy E (fullConfig props s) (thoughts_prop props)
            (Some (previewContent s)) w = (Inl e, w1)"
  then show "generate_cycle E props (s\<lparr>isGenerating := True\<rparr>) w = (Inl e, w1)"
    and "handleGenerate E props s w
            = (Inr (s\<lparr>isGenerating := False\<rparr>),
               w1\<lparr>alerts := alerts w1 @ [alert_generate_failed]\<rparr>)"
    by (simp_all add: handleGenerate_def generate_cycle_def fullConfig_isGenerating bind_io_def
        try_catch_def return_io_def alert_def)
next
  assume "(aiProvider config = None \<or> aiProvider config = Some gemini)
       \<and> generateContent E w (getGeminiClient E (customApiKey config))
            (copy_request copy_systemPrompt (copy_userPrompt config ths base)) = Inl e"
  then show "fst (generateViralCopy E config ths base w) = Inl e"
    using generateViralCopy_native_failure by blast
next
  assume h: "aiProvider config = Some a \<and> a \<noteq> gemini
       \<and> fetch E w (if a = deepseek then deepseek_url else qwen_url)
            (chat_request (if a = deepseek then js ''deepseek-chat'' else js ''qwen-plus'')
               (or_else (customApiKey config) (or_else (API_KEY E) []))
               copy_systemPrompt (copy_userPrompt config ths base)) = Inl e"
  then have "generateViralCopy E config ths base
           = callOpenAICompatible E (if a = deepseek then deepseek_url else qwen_url)
               (if a = deepseek then js ''deepseek-chat'' else js ''qwen-plus'')
               (or_else (customApiKey config) (or_else (API_KEY E) []))
               copy_systemPrompt (copy_userPrompt config ths base)"
    using generateViralCopy_alt by blast
  with h show "fst (generateViralCopy E config ths base w) = Inl e"
    by (simp add: callOpenAICompatible_rejected)
qed

text \<open>
The theorem at a run in which no provider can be reached.
\<close>

theorem copy_failure_aborts_cycle_witness:
  "\<exists>w'. handleGenerate down_env sample_props (sample_state True) fresh_world
           = (Inr (sample_state True), w')
     \<and> alerts w' = [alert_generate_failed] \<and> length (calls w') = 1"
proof -
  let ?cfg = "fullConfig sample_props (sample_state True)"
  let ?ths = "thoughts_prop sample_props"
  let ?base = "Some (previewContent (sample_state True))"
  let ?req = "GenerateContent (getGeminiClient down_env (customApiKey ?cfg))
                (copy_request copy_systemPrompt (copy_userPrompt ?cfg ?ths ?base))"
  let ?w1 = "fresh_world\<lparr>calls := calls fresh_world @ [?req]\<rparr>"
  note abort = copy_failure_aborts_cycle
    [where E = down_env and props = sample_props and s = "sample_state True"
       and w = fresh_world and e = unreachable and ?w1.0 = ?w1 and config = ?cfg
       and ths = ?ths and base = ?base and a = gemini]
  have "generateContent down_env fresh_world (getGeminiClient down_env (customApiKey ?cfg))
          (copy_request copy_systemPrompt (copy_userPrompt ?cfg ?ths ?base)) = Inl unreachable"
    by (simp add: down_env_def stub_env_sel)
  with abort have "fst (generateViralCopy down_env ?cfg ?ths ?base fresh_world) = Inl unreachable"
    by (simp add: sample_fullConfig)
  moreover have "snd (generateViralCopy down_env ?cfg ?ths ?base fresh_world) = ?w1"
    by (simp add: generateViralCopy_native sample_fullConfig)
  ultimately have "generateViralCopy down_env ?cfg ?ths ?base fresh_world = (Inl unreachable, ?w1)"
    by (simp add: prod_eq_iff)
  with abort
  have "handleGenerate down_env sample_props (sample_state True) fresh_world
          = (Inr (sample_state True), ?w1\<lparr>alerts := alerts ?w1 @ [alert_generate_failed]\<rparr>)"
    by (simp add: sample_state_sel)
  then show ?thesis by (simp add: fresh_world_def)
qed

text \<open>
  C3 as stated fails where it lets the error reach the caller of the orchestrator: with
  no provider reachable copy generation fails, and \<open>handleGenerate\<close> returns normally.
\<close>

theorem copy_failure_is_caught:
  "fst (generateViralCopy down_env (fullConfig sample_props (sample_state True))
          (thoughts_prop sample_props) (Some (previewContent (sample_state True))) fresh_world)
     = Inl unreachable
   \<and> fst (handleGenerate down_env sample_props (sample_state True) fresh_world)
     = Inr (sample_state True)"
  by (simp add: handleGenerate_def generate_cycle_def fullConfig_isGenerating
      generateViralCopy_native sample_fullConfig down_env_def stub_env_sel bind_io_def
      try_catch_def return_io_def alert_def sample_state_sel)



text \<open>
  C5. Re-audit changes only the \<open>content\<close> and \<open>audit\<close> fields of the existing record; its
  \<open>id\<close>, \<open>config\<close>, \<open>createdAt\<close> and \<open>imageUrl\<close> stay. The only provider call it makes is the
  audit's own request, so it regenerates neither copy nor image. Against a deterministic
  provider (one whose answer does not depend on the history) auditing the same text twice
  gives the same result, and a second re-audit leaves the record as the first one made it.
  With no current record, re-audit does nothing.
\<close>

theorem reaudit_replaces_content_and_audit:
  "(currentCopy s = None \<longrightarrow> handleReAudit E props s w = (Inr s, w))
   \<and> (currentCopy s = Some cur \<longrightarrow>
        (\<exists>s' w' cur'.
           handleReAudit E props s w = (Inr s', w')
           \<and> s' = s\<lparr>isAuditing := False, currentCopy := Some cur'\<rparr>
           \<and> copy_id cur' = copy_id cur \<and> copy_config cur' = copy_config cur
           \<and> copy_createdAt cur' = copy_createdAt cur \<and> copy_imageUrl cur' = copy_imageUrl cur
           \<and> copy_content cur' = editedResult s
           \<and> fst (auditCopyContent E (editedResult s) (ui_platform s)
                     (customApiKey (globalSettings props)) w) = Inr (copy_audit cur')
           \<and> new_calls (handleReAudit E props s) w
               = [GenerateContent (getGeminiClient E (customApiKey (globalSettings props)))
                    (audit_request (editedResult s) (ui_platform s))]
           \<and> ((\<forall>w1 w2 key req. generateContent E w1 key req = generateContent E w2 key req) \<longrightarrow>
                (\<exists>s'' w''. handleReAudit E props s' w' = (Inr s'', w'')
                   \<and> currentCopy s'' = currentCopy s'))))
   \<and> ((\<forall>w1 w2 key req. generateContent E w1 key req = generateContent E w2 key req) \<longrightarrow>
        fst (auditCopyContent E c p k w) = fst (auditCopyContent E c p k w2))"
proof (intro conjI impI)
  assume "currentCopy s = None"
  then show "handleReAudit E props s w = (Inr s, w)"
    by (simp add: handleReAudit_def return_io_def)
next
  assume cur: "currentCopy s = Some cur"
  let ?key = "customApiKey (globalSettings props)"
  from reaudit_run [OF cur, of E props w]
  obtain v w1 where a: "auditCopyContent E (editedResult s) (ui_platform s) ?key w = (Inr v, w1)"
    and run: "handleReAudit E props s w
               = (Inr (s\<lparr>isAuditing := False,
                         currentCopy := Some (cur\<lparr>copy_content := editedResult s,
                                                   copy_audit := v\<rparr>)\<rparr>),
                  w1\<lparr>alerts := alerts w1 @ [alert_audit_updated]\<rparr>)"
    by blast
  let ?cur' = "cur\<lparr>copy_content := editedResult s, copy_audit := v\<rparr>"
  let ?s' = "s\<lparr>isAuditing := False, currentCopy := Some ?cur'\<rparr>"
  let ?w' = "w1\<lparr>alerts := alerts w1 @ [alert_audit_updated]\<rparr>"
  have calls: "new_calls (handleReAudit E props s) w
               = [GenerateContent (getGeminiClient E ?key)
                    (audit_request (editedResult s) (ui_platform s))]"
  proof -
    have "new_calls (handleReAudit E props s) w
            = new_calls (auditCopyContent E (editedResult s) (ui_platform s) ?key) w"
      by (simp add: new_calls_def run a)
    then show ?thesis by (simp add: new_calls_audit)
  qed
  have again: "\<exists>s'' w''. handleReAudit E props ?s' ?w' = (Inr s'', w'')
                 \<and> currentCopy s'' = currentCopy ?s'"
    if det: "\<forall>w1 w2 key req. generateContent E w1 key req = generateContent E w2 key req"
  proof -
    have cur': "currentCopy ?s' = Some ?cur'" by simp
    from reaudit_run [OF cur', of E props ?w']
    obtain v2 w2 where a2: "auditCopyContent E (editedResult s) (ui_platform s) ?key ?w' = (Inr v2, w2)"
      and run2: "handleReAudit E props ?s' ?w'
               = (Inr (?s'\<lparr>isAuditing := False,
                         currentCopy := Some (?cur'\<lparr>copy_content := editedResult ?s',
                                                   copy_audit := v2\<rparr>)\<rparr>),
                  w2\<lparr>alerts := alerts w2 @ [alert_audit_updated]\<rparr>)"
      by auto
    from audit_deterministic [OF det, of "editedResult s" "ui_platform s" ?key w ?w'] a a2
    have "v2 = v" by simp
    with run2 show ?thesis by simp
  qed
  show "\<exists>s' w' cur'.
           handleReAudit E props s w = (Inr s', w')
           \<and> s' = s\<lparr>isAuditing := False, currentCopy := Some cur'\<rparr>
           \<and> copy_id cur' = copy_id cur \<and> copy_config cur' = copy_config cur
           \<and> copy_createdAt cur' = copy_createdAt cur \<and> copy_imageUrl cur' = copy_imageUrl cur
           \<and> copy_content cur' = editedResult s
           \<and> fst (auditCopyContent E (editedResult s) (ui_platform s) ?key w) = Inr (copy_audit cur')
           \<and> new_calls (handleReAudit E props s) w
               = [GenerateContent (getGeminiClient E ?key)
                    (audit_request (editedResult s) (ui_platform s))]
           \<and> ((\<forall>w1 w2 key req. generateContent E w1 key req = generateContent E w2 key req) \<longrightarrow>
                (\<exists>s'' w''. handleReAudit E props s' w' = (Inr s'', w'')
                   \<and> currentCopy s'' = currentCopy s'))"
  proof (intro exI conjI)
    show "handleReAudit E props s w = (Inr ?s', ?w')" by (rule run)
    show "?s' = s\<lparr>isAuditing := False, currentCopy := Some ?cur'\<rparr>" by simp
    show "fst (auditCopyContent E (editedResult s) (ui_platform s) ?key w) = Inr (copy_audit ?cur')"
      by (simp add: a)
    show "new_calls (handleReAudit E props s) w
               = [GenerateContent (getGeminiClient E ?key)
                    (audit_request (editedResult s) (ui_platform s))]"
      by (rule calls)
    show "(\<forall>w1 w2 key req. generateContent E w1 key req = generateContent E w2 key req) \<longrightarrow>
            (\<exists>s'' w''. handleReAudit E props ?s' ?w' = (Inr s'', w'')
                 \<and> currentCopy s'' = currentCopy ?s')"
      using again by blast
  qed simp_all
next
  assume "\<forall>w1 w2 key req. generateContent E w1 key req = generateContent E w2 key req"
  then show "fst (auditCopyContent E c p k w) = fst (auditCopyContent E c p k w2)"
    by (rule audit_deterministic)
qed

text \<open>
The theorem at the re-audit of an edited record, against a provider that scores.
\<close>

theorem reaudit_replaces_content_and_audit_witness:
  "\<exists>w'. handleReAudit auditor_env sample_props edited_state fresh_world
           = (Inr (edited_state\<lparr>currentCopy :=
                      Some (sample_copy\<lparr>copy_content := js ''second draft'',
                                         copy_audit := score_value\<rparr>)\<rparr>), w')"
proof -
  have cur: "currentCopy edited_state = Some sample_copy"
    and ed: "editedResult edited_state = js ''second draft''"
    and aud: "edited_state\<lparr>isAuditing := False, currentCopy := c\<rparr> = edited_state\<lparr>currentCopy := c\<rparr>"
    for c
    by (simp_all add: edited_state_def sample_state_def)
  have scored: "fst (auditCopyContent auditor_env (editedResult edited_state)
                  (ui_platform edited_state) (customApiKey (globalSettings sample_props))
                  fresh_world) = Inr score_value"
    by (simp add: audit_value auditor_env_def stub_env_sel response_text_text_response
        or_else_simps score_text_nonempty sample_parse_score_text)
  note frame = reaudit_replaces_content_and_audit
         [where s = edited_state and E = auditor_env and props = sample_props
            and w = fresh_world and cur = sample_copy and c = short_copy and p = XIAOHONGSHU
            and k = None and ?w2.0 = fresh_world,
          THEN conjunct2, THEN conjunct1, THEN mp, OF cur]
  then obtain s' w' cur' where run: "handleReAudit auditor_env sample_props edited_state fresh_world
                = (Inr s', w')"
    and s': "s' = edited_state\<lparr>isAuditing := False, currentCopy := Some cur'\<rparr>"
    and same: "copy_id cur' = copy_id sample_copy" "copy_config cur' = copy_config sample_copy"
      "copy_createdAt cur' = copy_createdAt sample_copy"
      "copy_imageUrl cur' = copy_imageUrl sample_copy"
    and content: "copy_content cur' = editedResult edited_state"
    and audit: "fst (auditCopyContent auditor_env (editedResult edited_state)
                  (ui_platform edited_state) (customApiKey (globalSettings sample_props))
                  fresh_world) = Inr (copy_audit cur')"
    by blast
  from audit scored have "copy_audit cur' = score_value" by simp
  with same content
  have "cur' = sample_copy\<lparr>copy_content := js ''second draft'', copy_audit := score_value\<rparr>"
    by (intro GeneratedCopy.equality) (simp_all add: ed)
  with run s' show ?thesis by (simp add: aud)
qed


section \<open>The copy prompt\<close>

text \<open>
  C6, as the code has it. A base draft whose trimmed text is non-empty takes priority
  over the selected fragments: the content source is then the draft header followed by
  the draft verbatim, and takes nothing from the fragments (it is the same for every
  fragment list and every selection). When the base content is absent or blank, the
  content source is the fragment header followed by one line for each selected fragment,
  in order, made of the fragment's text and its tags; so the text and every tag of every
  selected fragment occur in it. In both cases the user prompt of copy generation holds
  the content source.
\<close>

theorem base_draft_takes_priority:
  "(trim b \<noteq> [] \<longrightarrow>
      contentSource config thoughts (Some b)
        = [0x57FA, 0x7840, 0x8349, 0x7A3F, 0x5185, 0x5BB9] @ js '' ('' @ [0x8BF7, 0x57FA, 0x4E8E,
          0x6B64, 0x5185, 0x5BB9, 0x8FDB, 0x884C, 0x4F18, 0x5316, 0x548C, 0x683C, 0x5F0F, 0x5316]
          @ js ''):'' @ [0x000A] @ b
      \<and> contentSource config thoughts (Some b) = contentSource config' thoughts' (Some b))
   \<and> (base = None \<or> base = Some b \<and> trim b = [] \<longrightarrow>
        contentSource config thoughts base
          = [0x7528, 0x6237, 0x788E, 0x7247, 0x60F3, 0x6CD5] @ js '':'' @ [0x000A]
            @ join [0x000A]
                (map (\<lambda>t. js ''- '' @ thought_content t @ js '' ('' @ [0x6807, 0x7B7E] @ js '': ''
                           @ join (js '', '') (thought_tags t) @ js '')'')
                   (filter (\<lambda>t. thought_id t \<in> set (selectedThoughtIds config)) thoughts))
        \<and> (\<forall>t\<in>set thoughts.
              thought_id t \<in> set (selectedThoughtIds config) \<longrightarrow>
              js_includes (contentSource config thoughts base) (thought_content t)
              \<and> (\<forall>g\<in>set (thought_tags t). js_includes (contentSource config thoughts base) g)))
   \<and> js_includes (copy_userPrompt config thoughts base) (contentSource config thoughts base)"
proof (intro conjI impI ballI)
  assume "trim b \<noteq> []"
  then have "b \<noteq> []" by (rule trim_nonempty)
  with \<open>trim b \<noteq> []\<close> have "contentSource config thoughts (Some b) = base_draft_header @ b"
    and same: "contentSource config thoughts (Some b) = contentSource config' thoughts' (Some b)"
    by (simp_all add: contentSource_def)
  then show "contentSource config thoughts (Some b)
        = [0x57FA, 0x7840, 0x8349, 0x7A3F, 0x5185, 0x5BB9] @ js '' ('' @ [0x8BF7, 0x57FA, 0x4E8E,
          0x6B64, 0x5185, 0x5BB9, 0x8FDB, 0x884C, 0x4F18, 0x5316, 0x548C, 0x683C, 0x5F0F, 0x5316]
          @ js ''):'' @ [0x000A] @ b"
    by (simp add: source_literals(1))
  show "contentSource config thoughts (Some b) = contentSource config' thoughts' (Some b)"
    by (rule same)
next
  assume base: "base = None \<or> base = Some b \<and> trim b = []"
  from contentSource_fragments [OF base, of config thoughts]
  show "contentSource config thoughts base
          = [0x7528, 0x6237, 0x788E, 0x7247, 0x60F3, 0x6CD5] @ js '':'' @ [0x000A]
            @ join [0x000A]
                (map (\<lambda>t. js ''- '' @ thought_content t @ js '' ('' @ [0x6807, 0x7B7E] @ js '': ''
                           @ join (js '', '') (thought_tags t) @ js '')'')
                   (filter (\<lambda>t. thought_id t \<in> set (selectedThoughtIds config)) thoughts))"
    by (simp add: source_literals)
next
  fix t
  assume "base = None \<or> base = Some b \<and> trim b = []" "t \<in> set thoughts"
    "thought_id t \<in> set (selectedThoughtIds config)"
  then show "js_includes (contentSource config thoughts base) (thought_content t)"
    by (rule contentSource_holds_fragment(1))
next
  fix t g
  assume "base = None \<or> base = Some b \<and> trim b = []" "t \<in> set thoughts"
    "thought_id t \<in> set (selectedThoughtIds config)" "g \<in> set (thought_tags t)"
  then show "js_includes (contentSource config thoughts base) g"
    using contentSource_holds_fragment(2) by blast
next
  let ?pre = "copy_prompt_0_task_platform @ PlatformType_value (platform config)
     @ copy_prompt_1_niche @ NicheType_value (niche config) @ copy_prompt_2_source"
  let ?post = "copy_prompt_3_gap @ (if refUrl config \<noteq> [] then refUrl_label @ refUrl config else [])
     @ copy_prompt_4_style @ styleDescription config
     @ copy_prompt_5_language @ targetLanguage config
     @ copy_prompt_6_format @ formatDesc_of (platform config)
     @ copy_prompt_7_rules_tone @ styleDescription config
     @ copy_prompt_8_output"
  have "copy_userPrompt config thoughts base = ?pre @ contentSource config thoughts base @ ?post"
    by (simp add: copy_userPrompt_def)
  then show "js_includes (copy_userPrompt config thoughts base) (contentSource config thoughts base)"
    by (simp only: js_includes_append)
qed

text \<open>
  The theorem at two runs over the fragments \<open>pasta\<close> (selected) and \<open>running\<close> (not
  selected): with a draft, and with a blank draft, where the content source is the header
  and the one line of \<open>pasta\<close>.
\<close>

theorem base_draft_takes_priority_witness:
  "contentSource (sample_config X) [pasta, running] (Some (js ''my draft''))
     = [0x57FA, 0x7840, 0x8349, 0x7A3F, 0x5185, 0x5BB9] @ js '' ('' @ [0x8BF7, 0x57FA, 0x4E8E,
       0x6B64, 0x5185, 0x5BB9, 0x8FDB, 0x884C, 0x4F18, 0x5316, 0x548C, 0x683C, 0x5F0F, 0x5316]
       @ js ''):'' @ [0x000A] @ js ''my draft''
   \<and> contentSource (sample_config X) [pasta, running] (Some (js ''  ''))
     = [0x7528, 0x6237, 0x788E, 0x7247, 0x60F3, 0x6CD5] @ js '':'' @ [0x000A]
       @ js ''- learned to cook pasta today ('' @ [0x6807, 0x7B7E] @ js '': food, life)''
   \<and> js_includes (contentSource (sample_config X) [pasta, running] (Some (js ''  '')))
         (js ''learned to cook pasta today'')
   \<and> js_includes (contentSource (sample_config X) [pasta, running] (Some (js ''  '')))
         (js ''life'')"
proof -
  have t1: "trim (js ''my draft'') \<noteq> []"
    by (simp add: trim_def isWhiteSpace_def js_def)
  have t2: "Some (js ''  '') = None \<or> Some (js ''  '') = Some (js ''  '') \<and> trim (js ''  '') = []"
    by (simp add: trim_def isWhiteSpace_def js_def)
  have sel: "filter (\<lambda>t. thought_id t \<in> set (selectedThoughtIds (sample_config X))) [pasta, running]
               = [pasta]"
    by (simp add: sample_config_def pasta_def running_def js_def)
  have p: "pasta \<in> set [pasta, running]" "thought_id pasta \<in> set (selectedThoughtIds (sample_config X))"
    "thought_content pasta = js ''learned to cook pasta today''"
    "thought_tags pasta = [js ''food'', js ''life'']"
    by (simp_all add: sample_config_def pasta_def)
  note draft = base_draft_takes_priority
    [where b = "js ''my draft''" and config = "sample_config X" and thoughts = "[pasta, running]",
     THEN conjunct1, THEN mp, OF t1, THEN conjunct1]
  note blank = base_draft_takes_priority
    [where b = "js ''  ''" and config = "sample_config X" and thoughts = "[pasta, running]"
       and base = "Some (js ''  '')",
     THEN conjunct2, THEN conjunct1, THEN mp, OF t2]
  from blank have "contentSource (sample_config X) [pasta, running] (Some (js ''  ''))
     = [0x7528, 0x6237, 0x788E, 0x7247, 0x60F3, 0x6CD5] @ js '':'' @ [0x000A]
       @ js ''- learned to cook pasta today ('' @ [0x6807, 0x7B7E] @ js '': food, life)''"
    unfolding sel by (simp add: p js_def)
  moreover from blank p
  have "js_includes (contentSource (sample_config X) [pasta, running] (Some (js ''  '')))
         (js ''learned to cook pasta today'')"
    and "js_includes (contentSource (sample_config X) [pasta, running] (Some (js ''  '')))
         (js ''life'')"
    by auto
  ultimately show ?thesis using draft by simp
qed

text \<open>
  C6 as stated fails where it says that the content source contains none of the selected
  fragments' text: the draft is free text, and a draft that repeats a selected fragment
  puts that fragment's text into the content source.
\<close>

theorem draft_may_repeat_fragment:
  "trim (thought_content pasta) \<noteq> []
   \<and> thought_id pasta \<in> set (selectedThoughtIds (sample_config X))
   \<and> js_includes
       (contentSource (sample_config X) [pasta, running] (Some (thought_content pasta)))
       (thought_content pasta)"
proof -
  have t: "trim (thought_content pasta) \<noteq> []"
    by (simp add: pasta_def trim_def isWhiteSpace_def js_def)
  then have "thought_content pasta \<noteq> []" by (rule trim_nonempty)
  with t have "contentSource (sample_config X) [pasta, running] (Some (thought_content pasta))
                 = base_draft_header @ thought_content pasta @ []"
    by (simp add: contentSource_def)
  then have "js_includes
       (contentSource (sample_config X) [pasta, running] (Some (thought_content pasta)))
       (thought_content pasta)"
    by (simp only: js_includes_append)
  moreover have "thought_id pasta \<in> set (selectedThoughtIds (sample_config X))"
    by (simp add: sample_config_def pasta_def)
  ultimately show ?thesis using t by simp
qed




section \<open>Providers\<close>




text \<open>
  C10. Whatever provider is configured, the audit, the style analysis, the fragment
  consolidation and the image synthesis call the primary provider only: the audit and the
  style analysis make exactly one native call, the consolidation one (none for an empty
  fragment list), the image synthesis one or two; none of them takes the provider setting,
  and the image step and the re-audit of the generation tab make native calls only,
  whatever the settings say. Copy generation and tagging go through the chat-completion
  adapter exactly when the provider is DeepSeek or Qwen, and make one native call
  otherwise.
\<close>

theorem provider_routing:
  "new_calls (auditCopyContent E c p k) w
     = [GenerateContent (getGeminiClient E k) (audit_request c p)]
   \<and> new_calls (analyzeStyleFromText E ex k) w
     = [GenerateContent (getGeminiClient E k) (style_request ex)]
   \<and> new_calls (smartOrganizeThoughts E ths k) w
     = (if ths = [] then [] else [GenerateContent (getGeminiClient E k) (organize_request ths)])
   \<and> (\<exists>rest. new_calls (generateImageForCopy E c n k) w
               = GenerateContent (getGeminiClient E k) (promptGen_request c n) # rest
          \<and> list_all is_gemini_call rest)
   \<and> list_all is_gemini_call (new_calls (image_step E props s c) w)
   \<and> list_all is_gemini_call (new_calls (handleReAudit E props s) w)
   \<and> new_calls (generateViralCopy E config ths base) w
     = (let key = or_else (customApiKey config) (or_else (API_KEY E) []);
            user = copy_userPrompt config ths base
        in
          case aiProvider config of
            Some deepseek \<Rightarrow>
              [Fetch deepseek_url (chat_request (js ''deepseek-chat'') key copy_systemPrompt user)]
          | Some qwen \<Rightarrow>
              [Fetch qwen_url (chat_request (js ''qwen-plus'') key copy_systemPrompt user)]
          | _ \<Rightarrow>
              [GenerateContent (getGeminiClient E (customApiKey config))
                 (copy_request copy_systemPrompt user)])
   \<and> new_calls (generateTagsForThought E txt k provider) w
     = (let key = or_else k (or_else (API_KEY E) []);
            opts = Some \<lparr>opt_customApiKey = k, opt_aiProvider = provider,
                         opt_thinkingBudget = None\<rparr>
        in
          if provider = Some (js ''deepseek'') then
            [Fetch deepseek_url
               (chat_request (js ''deepseek-chat'') key tags_systemPrompt (tags_userPrompt txt))]
          else if provider = Some (js ''qwen'') then
            [Fetch qwen_url
               (chat_request (js ''qwen-plus'') key tags_systemPrompt (tags_userPrompt txt))]
          else
            [GenerateContent (getGeminiClient E (Some key))
               (text_request tags_systemPrompt (tags_userPrompt txt) opts)])"
  by (intro conjI new_calls_audit new_calls_style new_calls_organize new_calls_image
      new_calls_image_step new_calls_reaudit new_calls_copy new_calls_tags)

text \<open>
The theorem at a configuration that names DeepSeek.
\<close>

theorem provider_routing_witness:
  "new_calls (generateViralCopy down_env ((sample_config X)\<lparr>aiProvider := Some deepseek\<rparr>)
                [pasta] None) fresh_world
     = [Fetch deepseek_url
          (chat_request (js ''deepseek-chat'') [] copy_systemPrompt
             (copy_userPrompt ((sample_config X)\<lparr>aiProvider := Some deepseek\<rparr>) [pasta] None))]
   \<and> new_calls (auditCopyContent down_env short_copy X None) fresh_world
     = [GenerateContent [] (audit_request short_copy X)]"
proof -
  have cfg: "aiProvider ((sample_config X)\<lparr>aiProvider := Some deepseek\<rparr>) = Some deepseek"
    "customApiKey ((sample_config X)\<lparr>aiProvider := Some deepseek\<rparr>) = None"
    by (simp_all add: sample_config_def)
  have key: "API_KEY down_env = None" "getGeminiClient down_env None = []"
    by (simp_all add: down_env_def stub_env_sel getGeminiClient_stub)
  from provider_routing
         [where E = down_env and c = short_copy and p = X and k = None and w = fresh_world
            and config = "(sample_config X)\<lparr>aiProvider := Some deepseek\<rparr>"
            and ths = "[pasta]" and base = None]
  show ?thesis
    by (simp add: cfg key or_else_simps Let_def)
qed

end
